theory Spec2Isabelle
  imports Main "HOL-Library.Word"
begin

section \<open>JSON texts and the errors of encoding/json\<close>

text \<open>
  The source (reddit/things.go) receives byte slices and hands them to encoding/json.
  A byte slice is modelled by the JSON text it holds: \<open>None\<close> when the bytes are not
  one syntactically valid JSON text (json.Unmarshal then returns a SyntaxError before it
  stores anything; an empty json.RawMessage is such a slice), \<open>Some j\<close> otherwise.
  Members of an object keep their order and their duplicates; a number keeps its literal,
  a string and a member name are the unquoted bytes. White space between tokens is not
  represented.
\<close>

datatype json =
    JNull
  | JBool bool
  | JNum string
  | JStr string
  | JArr "json list"
  | JObj "(string \<times> json) list"

type_synonym bytes = "json option"

text \<open>
  The errors json.Unmarshal returns here: the text is not JSON, or a JSON value does not
  fit the Go type it is stored into (the offset and type carried by the Go error are
  dropped).
\<close>

datatype error = SyntaxError | UnmarshalTypeError

text \<open>A call either returns, or panics the goroutine (a Go run-time error).\<close>

datatype panic = IndexOutOfRange | NilDereference

datatype 'a outcome = Returned 'a | Panicked panic

section \<open>The records of things.go\<close>

text \<open>
  Go's \<open>int\<close> is a 64-bit word, \<open>float32\<close> its 32-bit pattern. A pointer field is an
  option (\<open>None\<close> is nil). A slice is the list of its elements: the source only appends to
  slices, ranges over them, takes their length and their element 0, and on all of these a
  nil slice and an empty slice agree. The slices of pointers hold no nil element: the
  source stores only pointers it has just allocated or that it has already dereferenced.
  The receiver of a method is not nil, except where the method itself tests it.
  \<open>Timestamp\<close>, \<open>User\<close> and \<open>ModAction\<close> are declared in other files of the package.
\<close>

typedecl Timestamp
typedecl User
typedecl ModAction

record thing =
  thing_Kind :: string
  thing_Data :: bytes

record More =
  More_ID :: string
  More_FullID :: string
  More_ParentID :: string
  More_Count :: "64 word"
  More_Depth :: "64 word"
  More_Children :: "string list"

record Post =
  Post_ID :: string
  Post_FullID :: string
  Post_Created :: "Timestamp option"
  Post_Edited :: "Timestamp option"
  Post_Permalink :: string
  Post_URL :: string
  Post_Title :: string
  Post_Body :: string
  Post_Likes :: "bool option"
  Post_Score :: "64 word"
  Post_UpvoteRatio :: "32 word"
  Post_NumberOfComments :: "64 word"
  Post_SubredditName :: string
  Post_SubredditNamePrefixed :: string
  Post_SubredditID :: string
  Post_Author :: string
  Post_AuthorID :: string
  Post_Spoiler :: bool
  Post_Locked :: bool
  Post_NSFW :: bool
  Post_IsSelfPost :: bool
  Post_Saved :: bool
  Post_Stickied :: bool

record Subreddit =
  Subreddit_ID :: string
  Subreddit_FullID :: string
  Subreddit_Created :: "Timestamp option"
  Subreddit_URL :: string
  Subreddit_Name :: string
  Subreddit_NamePrefixed :: string
  Subreddit_Title :: string
  Subreddit_Description :: string
  Subreddit_Type :: string
  Subreddit_SuggestedCommentSort :: string
  Subreddit_Subscribers :: "64 word"
  Subreddit_ActiveUserCount :: "64 word option"
  Subreddit_NSFW :: bool
  Subreddit_UserIsMod :: bool
  Subreddit_Subscribed :: bool
  Subreddit_Favorite :: bool

text \<open>The fields of \<open>Comment\<close> before \<open>Replies\<close>, in the order of the struct.\<close>

record CommentFields =
  Comment_ID :: string
  Comment_FullID :: string
  Comment_Created :: "Timestamp option"
  Comment_Edited :: "Timestamp option"
  Comment_ParentID :: string
  Comment_Permalink :: string
  Comment_Body :: string
  Comment_Author :: string
  Comment_AuthorID :: string
  Comment_AuthorFlairText :: string
  Comment_AuthorFlairID :: string
  Comment_SubredditName :: string
  Comment_SubredditNamePrefixed :: string
  Comment_SubredditID :: string
  Comment_Likes :: "bool option"
  Comment_Score :: "64 word"
  Comment_Controversiality :: "64 word"
  Comment_PostID :: string
  Comment_PostTitle :: string
  Comment_PostPermalink :: string
  Comment_PostAuthor :: string
  Comment_PostNumComments :: "64 word option"
  Comment_IsSubmitter :: bool
  Comment_ScoreHidden :: bool
  Comment_Saved :: bool
  Comment_Stickied :: bool
  Comment_Locked :: bool
  Comment_CanGild :: bool
  Comment_NSFW :: bool

text \<open>
  A comment owns its replies, and each reply is a comment: the two structs are mutually
  recursive. The model is the tree the pointers form; it covers the heaps in which no
  comment is reachable along two paths.
\<close>

datatype Comment = Comment (Comment_fields: CommentFields) (Comment_Replies: Replies)
  and Replies = Replies (Replies_Comments: "Comment list") (Replies_More: "More option")

record things =
  things_Comments :: "Comment list"
  things_Mores :: "More list"
  things_Users :: "User list"
  things_Posts :: "Post list"
  things_Subreddits :: "Subreddit list"
  things_ModActions :: "ModAction list"

record listing =
  listing_things :: things
  listing_after :: string
  listing_before :: string

record PostAndComments =
  PostAndComments_Post :: "Post option"
  PostAndComments_Comments :: "Comment list"
  PostAndComments_More :: "More option"

subsection \<open>Zero values\<close>

definition zero_thing :: thing where
  "zero_thing = \<lparr>thing_Kind = [], thing_Data = None\<rparr>"

definition zero_things :: things where
  "zero_things = \<lparr>things_Comments = [], things_Mores = [], things_Users = [],
     things_Posts = [], things_Subreddits = [], things_ModActions = []\<rparr>"

definition zero_listing :: listing where
  "zero_listing = \<lparr>listing_things = zero_things, listing_after = [], listing_before = []\<rparr>"

definition zero_Replies :: Replies where
  "zero_Replies = Replies [] None"

definition zero_PostAndComments :: PostAndComments where
  "zero_PostAndComments =
     \<lparr>PostAndComments_Post = None, PostAndComments_Comments = [], PostAndComments_More = None\<rparr>"

definition Comment_FullID_of :: "Comment \<Rightarrow> string" where
  "Comment_FullID_of c = Comment_FullID (Comment_fields c)"

definition Comment_ParentID_of :: "Comment \<Rightarrow> string" where
  "Comment_ParentID_of c = Comment_ParentID (Comment_fields c)"

section \<open>How encoding/json stores a JSON value into the Go types of the source\<close>

text \<open>
  encoding/json matches a member name to a struct field by the field's JSON name, exactly
  or else under case folding: ASCII letters fold to upper case, and the Kelvin sign
  (U+212A, bytes E2 84 AA) and the long s (U+017F, bytes C5 BF) fold to K and S.
\<close>

definition toUpper :: "char \<Rightarrow> char" where
  "toUpper c =
     (case map_of (zip ''abcdefghijklmnopqrstuvwxyz'' ''ABCDEFGHIJKLMNOPQRSTUVWXYZ'') c of
        Some u \<Rightarrow> u
      | None \<Rightarrow> c)"

fun foldName :: "string \<Rightarrow> string" where
  "foldName (a # b # c # cs) =
     (if a = CHR 0xE2 \<and> b = CHR 0x84 \<and> c = CHR 0xAA then CHR ''K'' # foldName cs
      else if a = CHR 0xC5 \<and> b = CHR 0xBF then CHR ''S'' # foldName (c # cs)
      else toUpper a # foldName (b # c # cs))"
| "foldName [a, b] =
     (if a = CHR 0xC5 \<and> b = CHR 0xBF then [CHR ''S''] else toUpper a # foldName [b])"
| "foldName [a] = [toUpper a]"
| "foldName [] = []"

definition matches_field :: "string \<Rightarrow> string \<Rightarrow> bool" where
  "matches_field key name = (foldName key = foldName name)"

text \<open>
  A value stored into a \<open>string\<close> field: a JSON string sets it, \<open>null\<close> leaves it, any
  other value is an UnmarshalTypeError. (encoding/json records such an error, skips the
  value and returns the error when the whole text has been read; every caller in the
  source discards the target when an error comes back, so the model returns the error at
  once.)
\<close>

fun store_string :: "json \<Rightarrow> string \<Rightarrow> error + string" where
  "store_string (JStr s) old = Inr s"
| "store_string JNull old = Inr old"
| "store_string _ old = Inl UnmarshalTypeError"

text \<open>The members of an object are stored one after the other, in the order of the text.\<close>

fun store_members ::
  "(string \<times> json \<Rightarrow> 'a \<Rightarrow> error + 'a) \<Rightarrow> (string \<times> json) list \<Rightarrow> 'a \<Rightarrow> error + 'a" where
  "store_members f [] a = Inr a"
| "store_members f (kv # kvs) a =
     (case f kv a of Inl e \<Rightarrow> Inl e | Inr a' \<Rightarrow> store_members f kvs a')"

text \<open>
  A value stored into a struct without an UnmarshalJSON method: \<open>null\<close> leaves the struct,
  an object stores its members, any other value is an UnmarshalTypeError.
\<close>

fun store_struct ::
  "(string \<times> json \<Rightarrow> 'a \<Rightarrow> error + 'a) \<Rightarrow> json \<Rightarrow> 'a \<Rightarrow> error + 'a" where
  "store_struct f JNull a = Inr a"
| "store_struct f (JObj kvs) a = store_members f kvs a"
| "store_struct f _ a = Inl UnmarshalTypeError"

subsection \<open>thing and []thing\<close>

text \<open>
  \<open>Kind string `json:"kind"`\<close> and \<open>Data json.RawMessage `json:"data"`\<close>: the raw message
  keeps the bytes of whatever value the member has, \<open>null\<close> included.
\<close>

fun thing_member :: "string \<times> json \<Rightarrow> thing \<Rightarrow> error + thing" where
  "thing_member (k, v) t =
     (if matches_field k ''kind'' then
        (case store_string v (thing_Kind t) of
           Inl e \<Rightarrow> Inl e
         | Inr s \<Rightarrow> Inr (t\<lparr>thing_Kind := s\<rparr>))
      else if matches_field k ''data'' then Inr (t\<lparr>thing_Data := Some v\<rparr>)
      else Inr t)"

definition store_thing :: "json \<Rightarrow> error + thing" where
  "store_thing j = store_struct thing_member j zero_thing"

fun store_thing_elems :: "json list \<Rightarrow> error + thing list" where
  "store_thing_elems [] = Inr []"
| "store_thing_elems (j # js) =
     (case store_thing j of
        Inl e \<Rightarrow> Inl e
      | Inr t \<Rightarrow> (case store_thing_elems js of Inl e \<Rightarrow> Inl e | Inr ts \<Rightarrow> Inr (t # ts)))"

text \<open>\<open>var things []thing; json.Unmarshal(b, &things)\<close>\<close>

fun unmarshal_thing_slice :: "bytes \<Rightarrow> error + thing list" where
  "unmarshal_thing_slice None = Inl SyntaxError"
| "unmarshal_thing_slice (Some JNull) = Inr []"
| "unmarshal_thing_slice (Some (JArr js)) = store_thing_elems js"
| "unmarshal_thing_slice (Some _) = Inl UnmarshalTypeError"

section \<open>things.UnmarshalJSON\<close>

text \<open>
  \<open>json.Unmarshal(thing.Data, v)\<close> with \<open>v\<close> a freshly allocated record is the reflective
  decoder of encoding/json run over the struct tags (and, for a comment, over
  \<open>Timestamp.UnmarshalJSON\<close>, which is in another file). The target is fresh, so the record
  and the error depend on the payload alone: the six decoders are parameters of the model,
  \<open>Some v\<close> standing for a nil error.
\<close>

record decoders =
  decode_Comment :: "json \<Rightarrow> Comment option"
  decode_More :: "json \<Rightarrow> More option"
  decode_User :: "json \<Rightarrow> User option"
  decode_Post :: "json \<Rightarrow> Post option"
  decode_Subreddit :: "json \<Rightarrow> Subreddit option"
  decode_ModAction :: "json \<Rightarrow> ModAction option"

definition unmarshal_payload :: "(json \<Rightarrow> 'a option) \<Rightarrow> bytes \<Rightarrow> 'a option" where
  "unmarshal_payload dec data = (case data of None \<Rightarrow> None | Some j \<Rightarrow> dec j)"

definition kindComment :: string where "kindComment = ''t1''"
definition kindAccount :: string where "kindAccount = ''t2''"
definition kindPost :: string where "kindPost = ''t3''"
definition kindMessage :: string where "kindMessage = ''t4''"
definition kindSubreddit :: string where "kindSubreddit = ''t5''"
definition kindAward :: string where "kindAward = ''t6''"
definition kindMore :: string where "kindMore = ''more''"
definition kindModAction :: string where "kindModAction = ''modaction''"

definition things_init :: "things \<Rightarrow> things" where
  "things_init t = \<lparr>things_Comments = [], things_Mores = [], things_Users = [],
     things_Posts = [], things_Subreddits = [], things_ModActions = []\<rparr>"

text \<open>The body of the loop: the switch on \<open>thing.Kind\<close>, in the order of the source.\<close>

definition classify :: "decoders \<Rightarrow> things \<Rightarrow> thing \<Rightarrow> things" where
  "classify ds t th =
     (if thing_Kind th = kindComment then
        (case unmarshal_payload (decode_Comment ds) (thing_Data th) of
           Some v \<Rightarrow> t\<lparr>things_Comments := things_Comments t @ [v]\<rparr> | None \<Rightarrow> t)
      else if thing_Kind th = kindMore then
        (case unmarshal_payload (decode_More ds) (thing_Data th) of
           Some v \<Rightarrow> t\<lparr>things_Mores := things_Mores t @ [v]\<rparr> | None \<Rightarrow> t)
      else if thing_Kind th = kindAccount then
        (case unmarshal_payload (decode_User ds) (thing_Data th) of
           Some v \<Rightarrow> t\<lparr>things_Users := things_Users t @ [v]\<rparr> | None \<Rightarrow> t)
      else if thing_Kind th = kindPost then
        (case unmarshal_payload (decode_Post ds) (thing_Data th) of
           Some v \<Rightarrow> t\<lparr>things_Posts := things_Posts t @ [v]\<rparr> | None \<Rightarrow> t)
      else if thing_Kind th = kindSubreddit then
        (case unmarshal_payload (decode_Subreddit ds) (thing_Data th) of
           Some v \<Rightarrow> t\<lparr>things_Subreddits := things_Subreddits t @ [v]\<rparr> | None \<Rightarrow> t)
      else if thing_Kind th = kindModAction then
        (case unmarshal_payload (decode_ModAction ds) (thing_Data th) of
           Some v \<Rightarrow> t\<lparr>things_ModActions := things_ModActions t @ [v]\<rparr> | None \<Rightarrow> t)
      else t)"

fun classify_all :: "decoders \<Rightarrow> things \<Rightarrow> thing list \<Rightarrow> things" where
  "classify_all ds t [] = t"
| "classify_all ds t (th # ths) = classify_all ds (classify ds t th) ths"

definition things_UnmarshalJSON :: "decoders \<Rightarrow> bytes \<Rightarrow> things \<Rightarrow> things \<times> error option" where
  "things_UnmarshalJSON ds b t =
     (let t0 = things_init t in
      case unmarshal_thing_slice b of
        Inl err \<Rightarrow> (t0, Some err)
      | Inr ths \<Rightarrow> (classify_all ds t0 ths, None))"

section \<open>listing.UnmarshalJSON\<close>

text \<open>
  The anonymous struct \<open>root.Data\<close>: \<open>Things things `json:"children"`\<close>,
  \<open>After string `json:"after"`\<close>, \<open>Before string `json:"before"`\<close>.
\<close>

record root_Data =
  Data_Things :: things
  Data_After :: string
  Data_Before :: string

definition zero_root_Data :: root_Data where
  "zero_root_Data = \<lparr>Data_Things = zero_things, Data_After = [], Data_Before = []\<rparr>"

text \<open>
  \<open>things\<close> has an UnmarshalJSON method on its pointer and the field is addressable, so
  the method receives the bytes of the member's value whatever it is (\<open>null\<close> too); an
  error it returns ends the decoding.
\<close>

fun Data_member :: "decoders \<Rightarrow> string \<times> json \<Rightarrow> root_Data \<Rightarrow> error + root_Data" where
  "Data_member ds (k, v) d =
     (if matches_field k ''children'' then
        (case things_UnmarshalJSON ds (Some v) (Data_Things d) of
           (t, None) \<Rightarrow> Inr (d\<lparr>Data_Things := t\<rparr>)
         | (t, Some e) \<Rightarrow> Inl e)
      else if matches_field k ''after'' then
        (case store_string v (Data_After d) of
           Inl e \<Rightarrow> Inl e
         | Inr s \<Rightarrow> Inr (d\<lparr>Data_After := s\<rparr>))
      else if matches_field k ''before'' then
        (case store_string v (Data_Before d) of
           Inl e \<Rightarrow> Inl e
         | Inr s \<Rightarrow> Inr (d\<lparr>Data_Before := s\<rparr>))
      else Inr d)"

text \<open>\<open>root\<close> has the one field \<open>Data `json:"data"`\<close>; its state is the state of that field.\<close>

fun root_member :: "decoders \<Rightarrow> string \<times> json \<Rightarrow> root_Data \<Rightarrow> error + root_Data" where
  "root_member ds (k, v) d =
     (if matches_field k ''data'' then store_struct (Data_member ds) v d else Inr d)"

text \<open>\<open>root := new(struct{...}); json.Unmarshal(b, root)\<close>\<close>

fun unmarshal_root :: "decoders \<Rightarrow> bytes \<Rightarrow> error + root_Data" where
  "unmarshal_root ds None = Inl SyntaxError"
| "unmarshal_root ds (Some j) = store_struct (root_member ds) j zero_root_Data"

definition listing_UnmarshalJSON ::
  "decoders \<Rightarrow> bytes \<Rightarrow> listing \<Rightarrow> listing \<times> error option" where
  "listing_UnmarshalJSON ds b l =
     (case unmarshal_root ds b of
        Inl err \<Rightarrow> (l, Some err)
      | Inr root \<Rightarrow>
          (l\<lparr>listing_things := Data_Things root,
             listing_after := Data_After root,
             listing_before := Data_Before root\<rparr>, None))"

definition listing_After :: "listing \<Rightarrow> string" where
  "listing_After l = listing_after l"

definition listing_Before :: "listing \<Rightarrow> string" where
  "listing_Before l = listing_before l"

section \<open>Comment.HasMore and the attach operations of a comment\<close>

definition Comment_HasMore :: "Comment \<Rightarrow> bool" where
  "Comment_HasMore c =
     (case Replies_More (Comment_Replies c) of
        None \<Rightarrow> False
      | Some mr \<Rightarrow> 0 < length (More_Children mr))"

text \<open>
  The receiver and the replies are reached through pointers and changed in place; the
  model returns the subtree of the receiver after the call.
\<close>

fun addCommentToReplies :: "Comment \<Rightarrow> Comment \<Rightarrow> Comment" where
  "addCommentToReplies (Comment f (Replies cs m)) comment =
     (if Comment_FullID f = Comment_ParentID_of comment
      then Comment f (Replies (cs @ [comment]) m)
      else Comment f (Replies (map (\<lambda>reply. addCommentToReplies reply comment) cs) m))"

fun addMoreToReplies :: "Comment \<Rightarrow> More \<Rightarrow> Comment" where
  "addMoreToReplies (Comment f (Replies cs m)) mr =
     (if Comment_FullID f = More_ParentID mr
      then Comment f (Replies cs (Some mr))
      else Comment f (Replies (map (\<lambda>reply. addMoreToReplies reply mr) cs) m))"

section \<open>Replies.UnmarshalJSON and Replies.MarshalJSON\<close>

text \<open>
  The first test compares the bytes with the two quote characters, the text of the empty
  JSON string. The assignment \<open>r = nil\<close> changes the method's own copy of the pointer, not
  the receiver. Otherwise \<open>json.Unmarshal(data, root)\<close> with \<open>root := new(listing)\<close> calls
  \<open>listing.UnmarshalJSON\<close> on the zero listing.
\<close>

definition Replies_UnmarshalJSON ::
  "decoders \<Rightarrow> bytes \<Rightarrow> Replies \<Rightarrow> Replies \<times> error option" where
  "Replies_UnmarshalJSON ds data r =
     (if data = Some (JStr []) then (r, None)
      else
        (case listing_UnmarshalJSON ds data zero_listing of
           (root, Some err) \<Rightarrow> (r, Some err)
         | (root, None) \<Rightarrow>
             (Replies (things_Comments (listing_things root))
                (case things_Mores (listing_things root) of
                   [] \<Rightarrow> Replies_More r
                 | mr # _ \<Rightarrow> Some mr), None)))"

text \<open>
  json.Marshal of a comment writes the fields in the order of the struct under their JSON
  names; \<open>omitempty\<close> drops an empty string and a nil pointer. \<open>Timestamp.MarshalJSON\<close> is in
  another file: the text it writes is the parameter \<open>ts\<close>, and it is taken to return no
  error, so that json.Marshal returns none either.
\<close>

definition digit_char :: "nat \<Rightarrow> char" where
  "digit_char d = ''0123456789'' ! d"

fun FormatUint :: "nat \<Rightarrow> string" where
  "FormatUint n = (if n < 10 then [digit_char n] else FormatUint (n div 10) @ [digit_char (n mod 10)])"

definition FormatInt :: "int \<Rightarrow> string" where
  "FormatInt i = (if i < 0 then CHR ''-'' # FormatUint (nat (- i)) else FormatUint (nat i))"

definition omitempty_string :: "string \<Rightarrow> string \<Rightarrow> (string \<times> json) list" where
  "omitempty_string name s = (if s = [] then [] else [(name, JStr s)])"

definition omitempty_ptr :: "string \<Rightarrow> ('a \<Rightarrow> json) \<Rightarrow> 'a option \<Rightarrow> (string \<times> json) list" where
  "omitempty_ptr name enc p = (case p of None \<Rightarrow> [] | Some v \<Rightarrow> [(name, enc v)])"

definition marshal_int :: "64 word \<Rightarrow> json" where
  "marshal_int w = JNum (FormatInt (sint w))"

definition marshal_bool_ptr :: "bool option \<Rightarrow> json" where
  "marshal_bool_ptr p = (case p of None \<Rightarrow> JNull | Some b \<Rightarrow> JBool b)"

definition marshal_CommentFields :: "(Timestamp \<Rightarrow> json) \<Rightarrow> CommentFields \<Rightarrow> (string \<times> json) list" where
  "marshal_CommentFields ts f =
     omitempty_string ''id'' (Comment_ID f) @
     omitempty_string ''name'' (Comment_FullID f) @
     omitempty_ptr ''created_utc'' ts (Comment_Created f) @
     omitempty_ptr ''edited'' ts (Comment_Edited f) @
     omitempty_string ''parent_id'' (Comment_ParentID f) @
     omitempty_string ''permalink'' (Comment_Permalink f) @
     omitempty_string ''body'' (Comment_Body f) @
     omitempty_string ''author'' (Comment_Author f) @
     omitempty_string ''author_fullname'' (Comment_AuthorID f) @
     omitempty_string ''author_flair_text'' (Comment_AuthorFlairText f) @
     omitempty_string ''author_flair_template_id'' (Comment_AuthorFlairID f) @
     omitempty_string ''subreddit'' (Comment_SubredditName f) @
     omitempty_string ''subreddit_name_prefixed'' (Comment_SubredditNamePrefixed f) @
     omitempty_string ''subreddit_id'' (Comment_SubredditID f) @
     [(''likes'', marshal_bool_ptr (Comment_Likes f)),
      (''score'', marshal_int (Comment_Score f)),
      (''controversiality'', marshal_int (Comment_Controversiality f))] @
     omitempty_string ''link_id'' (Comment_PostID f) @
     omitempty_string ''link_title'' (Comment_PostTitle f) @
     omitempty_string ''link_permalink'' (Comment_PostPermalink f) @
     omitempty_string ''link_author'' (Comment_PostAuthor f) @
     omitempty_ptr ''num_comments'' marshal_int (Comment_PostNumComments f) @
     [(''is_submitter'', JBool (Comment_IsSubmitter f)),
      (''score_hidden'', JBool (Comment_ScoreHidden f)),
      (''saved'', JBool (Comment_Saved f)),
      (''stickied'', JBool (Comment_Stickied f)),
      (''locked'', JBool (Comment_Locked f)),
      (''can_gild'', JBool (Comment_CanGild f)),
      (''over_18'', JBool (Comment_NSFW f))]"

text \<open>
  The \<open>Replies\<close> field of a comment reached through a pointer is addressable, so the
  encoder calls \<open>Replies.MarshalJSON\<close> on it: \<open>marshal_Replies\<close> is the method on a
  receiver that is not nil, \<open>marshal_Comments\<close> is \<open>json.Marshal(r.Comments)\<close>.
\<close>

fun marshal_Comment :: "(Timestamp \<Rightarrow> json) \<Rightarrow> Comment \<Rightarrow> json"
  and marshal_Replies :: "(Timestamp \<Rightarrow> json) \<Rightarrow> Replies \<Rightarrow> json" where
  "marshal_Comment ts (Comment f r) =
     JObj (marshal_CommentFields ts f @ [(''replies'', marshal_Replies ts r)])"
| "marshal_Replies ts (Replies cs m) =
     (if length cs = 0 then JNull else JArr (map (marshal_Comment ts) cs))"

definition marshal_Comments :: "(Timestamp \<Rightarrow> json) \<Rightarrow> Comment list \<Rightarrow> json" where
  "marshal_Comments ts cs = JArr (map (marshal_Comment ts) cs)"

definition Replies_MarshalJSON ::
  "(Timestamp \<Rightarrow> json) \<Rightarrow> Replies option \<Rightarrow> json \<times> error option" where
  "Replies_MarshalJSON ts r =
     (case r of
        None \<Rightarrow> (JNull, None)
      | Some rr \<Rightarrow>
          if length (Replies_Comments rr) = 0 then (JNull, None)
          else (marshal_Comments ts (Replies_Comments rr), None))"

section \<open>PostAndComments\<close>

text \<open>
  \<open>var l [2]listing; json.Unmarshal(data, &l)\<close>: \<open>null\<close> leaves the array; of a JSON array
  the elements 0 and 1 go through \<open>listing.UnmarshalJSON\<close> (an error ends the decoding),
  further elements are skipped, and elements the text does not have stay zero; any other
  value is an UnmarshalTypeError.
\<close>

fun store_listing_elems ::
  "decoders \<Rightarrow> json list \<Rightarrow> nat \<Rightarrow> listing list \<Rightarrow> error + listing list" where
  "store_listing_elems ds [] i l = Inr l"
| "store_listing_elems ds (j # js) i l =
     (if i < length l then
        (case listing_UnmarshalJSON ds (Some j) (l ! i) of
           (li, Some e) \<Rightarrow> Inl e
         | (li, None) \<Rightarrow> store_listing_elems ds js (i + 1) (l[i := li]))
      else store_listing_elems ds js (i + 1) l)"

fun unmarshal_listing_array :: "decoders \<Rightarrow> bytes \<Rightarrow> error + listing list" where
  "unmarshal_listing_array ds None = Inl SyntaxError"
| "unmarshal_listing_array ds (Some JNull) = Inr [zero_listing, zero_listing]"
| "unmarshal_listing_array ds (Some (JArr js)) =
     store_listing_elems ds js 0 [zero_listing, zero_listing]"
| "unmarshal_listing_array ds (Some _) = Inl UnmarshalTypeError"

text \<open>
  \<open>l[0].Posts[0]\<close> is an index expression on a slice: on an empty slice it panics. The
  result is the receiver after the call and the error returned.
\<close>

definition PostAndComments_UnmarshalJSON ::
  "decoders \<Rightarrow> bytes \<Rightarrow> PostAndComments \<Rightarrow> (PostAndComments \<times> error option) outcome" where
  "PostAndComments_UnmarshalJSON ds data pc =
     (case unmarshal_listing_array ds data of
        Inl err \<Rightarrow> Returned (pc, Some err)
      | Inr l \<Rightarrow>
          (case things_Posts (listing_things (l ! 0)) of
             [] \<Rightarrow> Panicked IndexOutOfRange
           | post # _ \<Rightarrow>
               Returned
                 (pc\<lparr>PostAndComments_Post := Some post,
                     PostAndComments_Comments := things_Comments (listing_things (l ! 1)),
                     PostAndComments_More :=
                       (case things_Mores (listing_things (l ! 1)) of
                          [] \<Rightarrow> PostAndComments_More pc
                        | mr # _ \<Rightarrow> Some mr)\<rparr>, None)))"

definition PostAndComments_HasMore :: "PostAndComments \<Rightarrow> bool" where
  "PostAndComments_HasMore pc =
     (case PostAndComments_More pc of
        None \<Rightarrow> False
      | Some mr \<Rightarrow> 0 < length (More_Children mr))"

text \<open>\<open>pc.Post.FullID\<close> dereferences \<open>pc.Post\<close>: a nil post panics.\<close>

definition addCommentToTree :: "PostAndComments \<Rightarrow> Comment \<Rightarrow> PostAndComments outcome" where
  "addCommentToTree pc comment =
     (case PostAndComments_Post pc of
        None \<Rightarrow> Panicked NilDereference
      | Some post \<Rightarrow>
          if Post_FullID post = Comment_ParentID_of comment
          then Returned (pc\<lparr>PostAndComments_Comments := PostAndComments_Comments pc @ [comment]\<rparr>)
          else Returned (pc\<lparr>PostAndComments_Comments :=
                 map (\<lambda>reply. addCommentToReplies reply comment) (PostAndComments_Comments pc)\<rparr>))"

definition addMoreToTree :: "PostAndComments \<Rightarrow> More \<Rightarrow> PostAndComments outcome" where
  "addMoreToTree pc mr =
     (case PostAndComments_Post pc of
        None \<Rightarrow> Panicked NilDereference
      | Some post \<Rightarrow>
          (let pc1 = (if Post_FullID post = More_ParentID mr
                      then pc\<lparr>PostAndComments_More := Some mr\<rparr> else pc)
           in Returned (pc1\<lparr>PostAndComments_Comments :=
                 map (\<lambda>reply. addMoreToReplies reply mr) (PostAndComments_Comments pc1)\<rparr>)))"

section \<open>Vocabulary of the properties\<close>

text \<open>The comments of a subtree, the receiver first, and the comments below a post.\<close>

fun subtree :: "Comment \<Rightarrow> Comment list" where
  "subtree (Comment f (Replies cs m)) = Comment f (Replies cs m) # concat (map subtree cs)"

definition tree_comments :: "PostAndComments \<Rightarrow> Comment list" where
  "tree_comments pc = concat (map subtree (PostAndComments_Comments pc))"

text \<open>
  A Tagged Envelope of the wire format, \<open>{"kind": k, "data": p}\<close>, and what the
  specification says the classifier puts into the bucket of one kind: of the envelopes
  of that kind, in the order of the input, the records of those whose payload decodes.
\<close>

definition envelope :: "string \<times> json \<Rightarrow> json" where
  "envelope e = JObj [(''kind'', JStr (fst e)), (''data'', snd e)]"

definition bucket :: "string \<Rightarrow> (json \<Rightarrow> 'a option) \<Rightarrow> (string \<times> json) list \<Rightarrow> 'a list" where
  "bucket kind dec es = List.map_filter (\<lambda>e. if fst e = kind then dec (snd e) else None) es"

definition classified :: "decoders \<Rightarrow> (string \<times> json) list \<Rightarrow> things" where
  "classified ds es =
     \<lparr>things_Comments = bucket kindComment (decode_Comment ds) es,
      things_Mores = bucket kindMore (decode_More ds) es,
      things_Users = bucket kindAccount (decode_User ds) es,
      things_Posts = bucket kindPost (decode_Post ds) es,
      things_Subreddits = bucket kindSubreddit (decode_Subreddit ds) es,
      things_ModActions = bucket kindModAction (decode_ModAction ds) es\<rparr>"

text \<open>A Listing envelope around a value for \<open>children\<close>, and one with both anchors.\<close>

definition listing_of_children :: "json \<Rightarrow> json" where
  "listing_of_children ch = JObj [(''kind'', JStr ''Listing''), (''data'', JObj [(''children'', ch)])]"

definition listing_envelope :: "json \<Rightarrow> string \<Rightarrow> string \<Rightarrow> json" where
  "listing_envelope ch a b =
     JObj [(''kind'', JStr ''Listing''),
           (''data'', JObj [(''children'', ch), (''after'', JStr a), (''before'', JStr b)])]"

fun is_object_or_null :: "json \<Rightarrow> bool" where
  "is_object_or_null JNull = True"
| "is_object_or_null (JObj kvs) = True"
| "is_object_or_null _ = False"

fun is_array_or_null :: "json \<Rightarrow> bool" where
  "is_array_or_null JNull = True"
| "is_array_or_null (JArr js) = True"
| "is_array_or_null _ = False"

subsection \<open>Values for the examples\<close>

definition zero_CommentFields :: CommentFields where
  "zero_CommentFields =
     \<lparr>Comment_ID = [], Comment_FullID = [], Comment_Created = None, Comment_Edited = None,
      Comment_ParentID = [], Comment_Permalink = [], Comment_Body = [], Comment_Author = [],
      Comment_AuthorID = [], Comment_AuthorFlairText = [], Comment_AuthorFlairID = [],
      Comment_SubredditName = [], Comment_SubredditNamePrefixed = [], Comment_SubredditID = [],
      Comment_Likes = None, Comment_Score = 0, Comment_Controversiality = 0,
      Comment_PostID = [], Comment_PostTitle = [], Comment_PostPermalink = [],
      Comment_PostAuthor = [], Comment_PostNumComments = None,
      Comment_IsSubmitter = False, Comment_ScoreHidden = False, Comment_Saved = False,
      Comment_Stickied = False, Comment_Locked = False, Comment_CanGild = False,
      Comment_NSFW = False\<rparr>"

definition zero_Post :: Post where
  "zero_Post =
     \<lparr>Post_ID = [], Post_FullID = [], Post_Created = None, Post_Edited = None,
      Post_Permalink = [], Post_URL = [], Post_Title = [], Post_Body = [], Post_Likes = None,
      Post_Score = 0, Post_UpvoteRatio = 0, Post_NumberOfComments = 0,
      Post_SubredditName = [], Post_SubredditNamePrefixed = [], Post_SubredditID = [],
      Post_Author = [], Post_AuthorID = [], Post_Spoiler = False, Post_Locked = False,
      Post_NSFW = False, Post_IsSelfPost = False, Post_Saved = False, Post_Stickied = False\<rparr>"

definition zero_More :: More where
  "zero_More = \<lparr>More_ID = [], More_FullID = [], More_ParentID = [], More_Count = 0,
     More_Depth = 0, More_Children = []\<rparr>"

text \<open>A comment, a post and a placeholder that carry identifiers only.\<close>

definition comment_with :: "string \<Rightarrow> string \<Rightarrow> Comment" where
  "comment_with full parent =
     Comment (zero_CommentFields\<lparr>Comment_FullID := full, Comment_ParentID := parent\<rparr>) zero_Replies"

definition post_with :: "string \<Rightarrow> Post" where
  "post_with full = zero_Post\<lparr>Post_FullID := full\<rparr>"

definition more_with :: "string \<Rightarrow> string \<Rightarrow> string list \<Rightarrow> More" where
  "more_with full parent children =
     zero_More\<lparr>More_FullID := full, More_ParentID := parent, More_Children := children\<rparr>"

text \<open>
  An instance of the payload decoders for the examples. It stores the members \<open>id\<close>,
  \<open>name\<close> and \<open>parent_id\<close> (and the \<open>children\<close> of a placeholder) as encoding/json
  does and passes over every other member, so it agrees with encoding/json on the payloads
  whose members are among these; it takes no account, community or moderation action.
\<close>

fun example_Comment_member :: "string \<times> json \<Rightarrow> CommentFields \<Rightarrow> error + CommentFields" where
  "example_Comment_member (k, v) f =
     (if matches_field k ''id'' then
        (case store_string v (Comment_ID f) of
           Inl e \<Rightarrow> Inl e | Inr s \<Rightarrow> Inr (f\<lparr>Comment_ID := s\<rparr>))
      else if matches_field k ''name'' then
        (case store_string v (Comment_FullID f) of
           Inl e \<Rightarrow> Inl e | Inr s \<Rightarrow> Inr (f\<lparr>Comment_FullID := s\<rparr>))
      else if matches_field k ''parent_id'' then
        (case store_string v (Comment_ParentID f) of
           Inl e \<Rightarrow> Inl e | Inr s \<Rightarrow> Inr (f\<lparr>Comment_ParentID := s\<rparr>))
      else Inr f)"

fun example_Post_member :: "string \<times> json \<Rightarrow> Post \<Rightarrow> error + Post" where
  "example_Post_member (k, v) p =
     (if matches_field k ''id'' then
        (case store_string v (Post_ID p) of
           Inl e \<Rightarrow> Inl e | Inr s \<Rightarrow> Inr (p\<lparr>Post_ID := s\<rparr>))
      else if matches_field k ''name'' then
        (case store_string v (Post_FullID p) of
           Inl e \<Rightarrow> Inl e | Inr s \<Rightarrow> Inr (p\<lparr>Post_FullID := s\<rparr>))
      else Inr p)"

fun store_string_elems :: "json list \<Rightarrow> error + string list" where
  "store_string_elems [] = Inr []"
| "store_string_elems (j # js) =
     (case store_string j [] of
        Inl e \<Rightarrow> Inl e
      | Inr s \<Rightarrow> (case store_string_elems js of Inl e \<Rightarrow> Inl e | Inr ss \<Rightarrow> Inr (s # ss)))"

fun store_string_slice :: "json \<Rightarrow> string list \<Rightarrow> error + string list" where
  "store_string_slice JNull old = Inr []"
| "store_string_slice (JArr js) old = store_string_elems js"
| "store_string_slice _ old = Inl UnmarshalTypeError"

fun example_More_member :: "string \<times> json \<Rightarrow> More \<Rightarrow> error + More" where
  "example_More_member (k, v) m =
     (if matches_field k ''id'' then
        (case store_string v (More_ID m) of
           Inl e \<Rightarrow> Inl e | Inr s \<Rightarrow> Inr (m\<lparr>More_ID := s\<rparr>))
      else if matches_field k ''name'' then
        (case store_string v (More_FullID m) of
           Inl e \<Rightarrow> Inl e | Inr s \<Rightarrow> Inr (m\<lparr>More_FullID := s\<rparr>))
      else if matches_field k ''parent_id'' then
        (case store_string v (More_ParentID m) of
           Inl e \<Rightarrow> Inl e | Inr s \<Rightarrow> Inr (m\<lparr>More_ParentID := s\<rparr>))
      else if matches_field k ''children'' then
        (case store_string_slice v (More_Children m) of
           Inl e \<Rightarrow> Inl e | Inr ss \<Rightarrow> Inr (m\<lparr>More_Children := ss\<rparr>))
      else Inr m)"

definition accept :: "error + 'a \<Rightarrow> 'a option" where
  "accept r = (case r of Inl e \<Rightarrow> None | Inr v \<Rightarrow> Some v)"

definition example_decoders :: decoders where
  "example_decoders =
     \<lparr>decode_Comment = (\<lambda>j. map_option (\<lambda>f. Comment f zero_Replies)
         (accept (store_struct example_Comment_member j zero_CommentFields))),
      decode_More = (\<lambda>j. accept (store_struct example_More_member j zero_More)),
      decode_User = (\<lambda>j. None),
      decode_Post = (\<lambda>j. accept (store_struct example_Post_member j zero_Post)),
      decode_Subreddit = (\<lambda>j. None),
      decode_ModAction = (\<lambda>j. None)\<rparr>"

definition example_timestamp :: "Timestamp \<Rightarrow> json" where
  "example_timestamp t = JNum ''0''"

text \<open>A member of a JSON object that names neither field of \<open>thing\<close>.\<close>

definition not_envelope_member :: "string \<times> json \<Rightarrow> bool" where
  "not_envelope_member kv =
     (\<not> matches_field (fst kv) ''kind'' \<and> \<not> matches_field (fst kv) ''data'')"

text \<open>
  The two Listings of the specification's end-to-end scenario: the post \<open>t3_abc\<close>, and
  its comment \<open>t1_1\<close> with a placeholder for two more.
\<close>

definition example_post_listing :: json where
  "example_post_listing =
     listing_of_children
       (JArr [envelope (''t3'', JObj [(''id'', JStr ''abc''), (''name'', JStr ''t3_abc'')])])"

definition example_comments_listing :: json where
  "example_comments_listing =
     listing_of_children
       (JArr [envelope (''t1'', JObj [(''id'', JStr ''1''), (''name'', JStr ''t1_1''),
                                      (''parent_id'', JStr ''t3_abc'')]),
              envelope (''more'', JObj [(''name'', JStr ''more_1''), (''parent_id'', JStr ''t3_abc''),
                                        (''children'', JArr [JStr ''t1_2'', JStr ''t1_3''])])])"

definition example_post :: Post where
  "example_post = zero_Post\<lparr>Post_ID := ''abc'', Post_FullID := ''t3_abc''\<rparr>"

definition example_comment :: Comment where
  "example_comment =
     Comment (zero_CommentFields\<lparr>Comment_ID := ''1'', Comment_FullID := ''t1_1'',
                Comment_ParentID := ''t3_abc''\<rparr>) zero_Replies"

definition example_more :: More where
  "example_more = more_with ''more_1'' ''t3_abc'' [''t1_2'', ''t1_3'']"

section \<open>Properties\<close>

subsection \<open>Shared facts\<close>

lemma Comment_FullID_of_simp: "Comment_FullID_of (Comment f r) = Comment_FullID f"
  by (simp add: Comment_FullID_of_def)

lemma Comment_ParentID_of_simp: "Comment_ParentID_of (Comment f r) = Comment_ParentID f"
  by (simp add: Comment_ParentID_of_def)

lemma distinct_concat_member:
  "distinct (concat xss) \<Longrightarrow> xs \<in> set xss \<Longrightarrow> distinct xs"
  by (induction xss) auto

subsection \<open>HasMore\<close>

text \<open>
  C9. \<open>Comment.HasMore\<close> and \<open>PostAndComments.HasMore\<close> are true exactly when a placeholder
  is attached and its list of children is not empty. A placeholder with an empty list of
  children, like no placeholder at all, reports that nothing more is to be loaded.
\<close>

theorem HasMore_iff_placeholder_with_children:
  "(Comment_HasMore c \<longleftrightarrow>
      (\<exists>m. Replies_More (Comment_Replies c) = Some m \<and> More_Children m \<noteq> []))
   \<and> (PostAndComments_HasMore pc \<longleftrightarrow>
      (\<exists>m. PostAndComments_More pc = Some m \<and> More_Children m \<noteq> []))
   \<and> \<not> Comment_HasMore (Comment f (Replies cs (Some (m0\<lparr>More_Children := []\<rparr>))))
   \<and> \<not> PostAndComments_HasMore (pc\<lparr>PostAndComments_More := Some (m0\<lparr>More_Children := []\<rparr>)\<rparr>)
   \<and> \<not> Comment_HasMore (Comment f (Replies cs None))
   \<and> \<not> PostAndComments_HasMore (pc\<lparr>PostAndComments_More := None\<rparr>)"
  by (simp add: Comment_HasMore_def PostAndComments_HasMore_def split: option.splits)

subsection \<open>The empty-string sentinel of the reply field\<close>

text \<open>
  C10. Decoding the text \<open>""\<close> into any reply container returns no error and leaves the
  container as it was, comments and placeholder included. So the container after the call
  is the empty one exactly when the container before the call was.
\<close>

theorem Replies_UnmarshalJSON_empty_string_frame:
  "Replies_UnmarshalJSON ds (Some (JStr [])) r = (r, None)
   \<and> ((fst (Replies_UnmarshalJSON ds (Some (JStr [])) r) = zero_Replies) = (r = zero_Replies))"
  by (simp add: Replies_UnmarshalJSON_def)

text \<open>
  C8. Decoding the text \<open>""\<close> into a fresh (zero) reply container returns no error and a
  container with no comment and no placeholder; a container with no comment, whatever its
  placeholder, encodes as \<open>null\<close>.
\<close>

theorem empty_replies_round_trip:
  "Replies_UnmarshalJSON ds (Some (JStr [])) zero_Replies = (zero_Replies, None)
   \<and> Replies_Comments zero_Replies = []
   \<and> Replies_More zero_Replies = None
   \<and> Replies_MarshalJSON ts (Some (Replies [] m)) = (JNull, None)"
  by (simp add: Replies_UnmarshalJSON_def zero_Replies_def Replies_MarshalJSON_def)

subsection \<open>Attaching a comment\<close>

lemma addCommentToReplies_unmatched:
  "\<forall>n \<in> set (subtree c). Comment_FullID_of n \<noteq> Comment_ParentID_of x \<Longrightarrow>
   addCommentToReplies c x = c"
proof (induction c x rule: addCommentToReplies.induct)
  case (1 f cs m comment)
  have root: "Comment_FullID f \<noteq> Comment_ParentID_of comment"
    using "1.prems" by (simp add: Comment_FullID_of_simp)
  have "map (\<lambda>reply. addCommentToReplies reply comment) cs = cs"
  proof (rule map_idI)
    fix r assume r: "r \<in> set cs"
    have "\<forall>n \<in> set (subtree r). Comment_FullID_of n \<noteq> Comment_ParentID_of comment"
      using "1.prems" r by auto
    then show "addCommentToReplies r comment = r"
      using "1.IH" root r by blast
  qed
  then show ?case using root by simp
qed

text \<open>
  C6. When no node of the tree has the full identifier that the comment names as its
  parent, attaching the comment returns normally and the tree after the call is the tree
  before it: the comment is nowhere in it. This holds below a comment
  (\<open>addCommentToReplies\<close>) and below a post (\<open>addCommentToTree\<close>, whose post is not nil).
\<close>

theorem attach_comment_without_parent_unchanged:
  "((\<forall>n \<in> set (subtree c). Comment_FullID_of n \<noteq> Comment_ParentID_of x)
      \<longrightarrow> addCommentToReplies c x = c)
   \<and> (PostAndComments_Post pc = Some post \<and> Post_FullID post \<noteq> Comment_ParentID_of x
        \<and> (\<forall>n \<in> set (tree_comments pc). Comment_FullID_of n \<noteq> Comment_ParentID_of x)
      \<longrightarrow> addCommentToTree pc x = Returned pc)"
proof (intro conjI impI)
  assume "\<forall>n \<in> set (subtree c). Comment_FullID_of n \<noteq> Comment_ParentID_of x"
  then show "addCommentToReplies c x = c" by (rule addCommentToReplies_unmatched)
next
  assume a: "PostAndComments_Post pc = Some post \<and> Post_FullID post \<noteq> Comment_ParentID_of x
        \<and> (\<forall>n \<in> set (tree_comments pc). Comment_FullID_of n \<noteq> Comment_ParentID_of x)"
  have "map (\<lambda>reply. addCommentToReplies reply x) (PostAndComments_Comments pc)
        = PostAndComments_Comments pc"
  proof (rule map_idI)
    fix r assume "r \<in> set (PostAndComments_Comments pc)"
    then have "\<forall>n \<in> set (subtree r). Comment_FullID_of n \<noteq> Comment_ParentID_of x"
      using a by (auto simp: tree_comments_def)
    then show "addCommentToReplies r x = r" by (rule addCommentToReplies_unmatched)
  qed
  then show "addCommentToTree pc x = Returned pc"
    using a by (simp add: addCommentToTree_def)
qed

text \<open>
  The out-of-order feed of the specification: the child of \<open>t1_a\<close> arrives while the tree
  holds the post \<open>t3_root\<close> and the comment \<open>t1_x\<close> only.
\<close>

theorem attach_comment_without_parent_unchanged_witness:
  "addCommentToReplies (comment_with ''t1_x'' ''t3_root'') (comment_with ''t1_b'' ''t1_a'')
     = comment_with ''t1_x'' ''t3_root''
   \<and> addCommentToTree
       \<lparr>PostAndComments_Post = Some (post_with ''t3_root''),
        PostAndComments_Comments = [comment_with ''t1_x'' ''t3_root''],
        PostAndComments_More = None\<rparr>
       (comment_with ''t1_b'' ''t1_a'')
     = Returned
       \<lparr>PostAndComments_Post = Some (post_with ''t3_root''),
        PostAndComments_Comments = [comment_with ''t1_x'' ''t3_root''],
        PostAndComments_More = None\<rparr>"
  using attach_comment_without_parent_unchanged
    [of "comment_with ''t1_x'' ''t3_root''" "comment_with ''t1_b'' ''t1_a''"
        "\<lparr>PostAndComments_Post = Some (post_with ''t3_root''),
          PostAndComments_Comments = [comment_with ''t1_x'' ''t3_root''],
          PostAndComments_More = None\<rparr>"
        "post_with ''t3_root''"]
  by (simp add: tree_comments_def comment_with_def post_with_def zero_Replies_def
      Comment_FullID_of_def Comment_ParentID_of_def zero_Post_def zero_CommentFields_def)

text \<open>
  C2. A post \<open>ROOT\<close> without comments (or a comment \<open>ROOT\<close> without replies) receives
  first the comment \<open>A\<close> whose parent is \<open>ROOT\<close>, then the comment \<open>B\<close> whose parent is
  \<open>A\<close>; \<open>A\<close> and \<open>ROOT\<close> are different identifiers and \<open>A\<close> arrives without replies, as
  in a flat feed. Afterwards the only comment below the root is the parent, and the only
  reply of the parent is the child.
\<close>

theorem attach_parent_then_child:
  assumes "Comment_ParentID_of parent = root_id"
    and "Comment_FullID_of parent = a"
    and "Comment_ParentID_of child = a"
    and "a \<noteq> root_id"
    and "Replies_Comments (Comment_Replies parent) = []"
  shows
   "(PostAndComments_Post pc = Some post \<and> Post_FullID post = root_id
       \<and> PostAndComments_Comments pc = [] \<longrightarrow>
     addCommentToTree pc parent = Returned (pc\<lparr>PostAndComments_Comments := [parent]\<rparr>)
     \<and> addCommentToTree (pc\<lparr>PostAndComments_Comments := [parent]\<rparr>) child
         = Returned (pc\<lparr>PostAndComments_Comments :=
             [Comment (Comment_fields parent) (Replies [child] (Replies_More (Comment_Replies parent)))]\<rparr>))
    \<and> (Comment_FullID_of root = root_id \<and> Replies_Comments (Comment_Replies root) = [] \<longrightarrow>
     addCommentToReplies (addCommentToReplies root parent) child
       = Comment (Comment_fields root)
           (Replies [Comment (Comment_fields parent) (Replies [child] (Replies_More (Comment_Replies parent)))]
              (Replies_More (Comment_Replies root))))"
proof -
  obtain pf pcs pm where parent: "parent = Comment pf (Replies pcs pm)"
    by (cases parent rule: subtree.cases) blast
  obtain rf rcs rm where root: "root = Comment rf (Replies rcs rm)"
    by (cases root rule: subtree.cases) blast
  show ?thesis
    using assms unfolding parent root
    by (auto simp: addCommentToTree_def Comment_FullID_of_simp Comment_ParentID_of_simp)
qed

theorem attach_parent_then_child_witness:
  "addCommentToTree
     \<lparr>PostAndComments_Post = Some (post_with ''t3_root''), PostAndComments_Comments = [],
      PostAndComments_More = None\<rparr>
     (comment_with ''t1_a'' ''t3_root'')
   = Returned
     \<lparr>PostAndComments_Post = Some (post_with ''t3_root''),
      PostAndComments_Comments = [comment_with ''t1_a'' ''t3_root''],
      PostAndComments_More = None\<rparr>
   \<and> addCommentToTree
     \<lparr>PostAndComments_Post = Some (post_with ''t3_root''),
      PostAndComments_Comments = [comment_with ''t1_a'' ''t3_root''],
      PostAndComments_More = None\<rparr>
     (comment_with ''t1_b'' ''t1_a'')
   = Returned
     \<lparr>PostAndComments_Post = Some (post_with ''t3_root''),
      PostAndComments_Comments =
        [Comment (Comment_fields (comment_with ''t1_a'' ''t3_root''))
           (Replies [comment_with ''t1_b'' ''t1_a''] None)],
      PostAndComments_More = None\<rparr>
   \<and> addCommentToReplies
       (addCommentToReplies (comment_with ''t1_root'' ''t3_p'') (comment_with ''t1_a'' ''t1_root''))
       (comment_with ''t1_b'' ''t1_a'')
     = Comment (Comment_fields (comment_with ''t1_root'' ''t3_p''))
         (Replies [Comment (Comment_fields (comment_with ''t1_a'' ''t1_root''))
                     (Replies [comment_with ''t1_b'' ''t1_a''] None)] None)"
  using attach_parent_then_child
    [of "comment_with ''t1_a'' ''t3_root''" "''t3_root''" "''t1_a''" "comment_with ''t1_b'' ''t1_a''"
        "\<lparr>PostAndComments_Post = Some (post_with ''t3_root''), PostAndComments_Comments = [],
          PostAndComments_More = None\<rparr>"
        "post_with ''t3_root''" "comment_with ''t3_root'' ''t3_p''"]
    attach_parent_then_child
    [of "comment_with ''t1_a'' ''t1_root''" "''t1_root''" "''t1_a''" "comment_with ''t1_b'' ''t1_a''"
        "\<lparr>PostAndComments_Post = Some (post_with ''t3_root''), PostAndComments_Comments = [],
          PostAndComments_More = None\<rparr>"
        "post_with ''t3_root''" "comment_with ''t1_root'' ''t3_p''"]
  by (simp add: comment_with_def post_with_def zero_Replies_def
      Comment_FullID_of_def Comment_ParentID_of_def zero_Post_def zero_CommentFields_def)

subsection \<open>Attaching a placeholder\<close>

lemma addMoreToReplies_overwrite:
  "More_ParentID m1 = More_ParentID m2 \<Longrightarrow>
   addMoreToReplies (addMoreToReplies c m1) m2 = addMoreToReplies c m2"
proof (induction c m1 rule: addMoreToReplies.induct)
  case (1 f cs m mr)
  show ?case
  proof (cases "Comment_FullID f = More_ParentID mr")
    case True
    then show ?thesis using "1.prems" by simp
  next
    case False
    then have "map (\<lambda>reply. addMoreToReplies (addMoreToReplies reply mr) m2) cs
             = map (\<lambda>reply. addMoreToReplies reply m2) cs"
      using "1.IH" "1.prems" by (intro map_cong) auto
    then show ?thesis using False "1.prems" by (simp add: comp_def)
  qed
qed

lemma FullIDs_addMoreToReplies:
  "map Comment_FullID_of (subtree (addMoreToReplies c mr)) = map Comment_FullID_of (subtree c)"
proof (induction c mr rule: addMoreToReplies.induct)
  case (1 f cs m mr)
  show ?case
  proof (cases "Comment_FullID f = More_ParentID mr")
    case True
    then show ?thesis by (simp add: Comment_FullID_of_simp)
  next
    case False
    then have "\<forall>r \<in> set cs. map Comment_FullID_of (subtree (addMoreToReplies r mr))
             = map Comment_FullID_of (subtree r)"
      using "1.IH" by blast
    then have "map (\<lambda>r. map Comment_FullID_of (subtree (addMoreToReplies r mr))) cs
             = map (\<lambda>r. map Comment_FullID_of (subtree r)) cs"
      by simp
    then have "concat (map (\<lambda>r. map Comment_FullID_of (subtree (addMoreToReplies r mr))) cs)
             = concat (map (\<lambda>r. map Comment_FullID_of (subtree r)) cs)"
      by (rule arg_cong)
    then show ?thesis using False
      by (simp add: Comment_FullID_of_simp map_concat comp_def del: map_eq_conv)
  qed
qed


lemma addMoreToReplies_slot:
  "distinct (map Comment_FullID_of (subtree c)) \<Longrightarrow>
   n \<in> set (subtree (addMoreToReplies c mr)) \<Longrightarrow>
   Comment_FullID_of n = More_ParentID mr \<Longrightarrow>
   Replies_More (Comment_Replies n) = Some mr"
proof (induction c mr arbitrary: n rule: addMoreToReplies.induct)
  case (1 f cs m mr)
  let ?below = "concat (map subtree cs)"
  from "1.prems"(1) have fresh: "Comment_FullID f \<notin> set (map Comment_FullID_of ?below)"
    and dist: "distinct (map Comment_FullID_of ?below)"
    by (simp_all add: Comment_FullID_of_simp)
  show ?case
  proof (cases "Comment_FullID f = More_ParentID mr")
    case True
    with "1.prems"(2) have "n = Comment f (Replies cs (Some mr)) \<or> n \<in> set ?below" by simp
    then show ?thesis
    proof
      assume "n = Comment f (Replies cs (Some mr))" then show ?thesis by simp
    next
      assume "n \<in> set ?below"
      then have "Comment_FullID_of n \<in> set (map Comment_FullID_of ?below)" by simp
      with fresh True "1.prems"(3) show ?thesis by simp
    qed
  next
    case False
    with "1.prems"(2) have "n = Comment f (Replies (map (\<lambda>reply. addMoreToReplies reply mr) cs) m)
        \<or> (\<exists>r \<in> set cs. n \<in> set (subtree (addMoreToReplies r mr)))" by auto
    then show ?thesis
    proof
      assume "n = Comment f (Replies (map (\<lambda>reply. addMoreToReplies reply mr) cs) m)"
      with False "1.prems"(3) show ?thesis by (simp add: Comment_FullID_of_simp)
    next
      assume "\<exists>r \<in> set cs. n \<in> set (subtree (addMoreToReplies r mr))"
      then obtain r where r: "r \<in> set cs" "n \<in> set (subtree (addMoreToReplies r mr))" by blast
      have "map Comment_FullID_of ?below = concat (map (\<lambda>r. map Comment_FullID_of (subtree r)) cs)"
        by (simp add: map_concat comp_def)
      with dist r(1) have "distinct (map Comment_FullID_of (subtree r))"
        by (auto intro: distinct_concat_member)
      with "1.IH"[OF False r(1) _ r(2) "1.prems"(3)] show ?thesis by simp
    qed
  qed
qed

lemma addMoreToTree_Returned:
  "PostAndComments_Post pc = Some post \<Longrightarrow>
   addMoreToTree pc mr = Returned
     \<lparr>PostAndComments_Post = Some post,
      PostAndComments_Comments = map (\<lambda>reply. addMoreToReplies reply mr) (PostAndComments_Comments pc),
      PostAndComments_More =
        (if Post_FullID post = More_ParentID mr then Some mr else PostAndComments_More pc)\<rparr>"
  by (simp add: addMoreToTree_def Let_def)

text \<open>
  C7. Two placeholders name the same parent. Attaching the first and then the second gives
  the tree that attaching the second alone gives: nothing of the first is left. The
  attach changes no identifier, and when the full identifiers of the comments are
  pairwise different (the data model's uniqueness of fullID), every comment that has the
  named identifier holds the second placeholder in its slot. Below a post (not nil) the
  same holds, and the post's own slot holds the second placeholder when the post is the
  named parent.
\<close>

theorem placeholder_overwrite:
  assumes same: "More_ParentID m1 = More_ParentID m2"
  shows
   "addMoreToReplies (addMoreToReplies c m1) m2 = addMoreToReplies c m2
    \<and> map Comment_FullID_of (subtree (addMoreToReplies c m2)) = map Comment_FullID_of (subtree c)
    \<and> (distinct (map Comment_FullID_of (subtree c)) \<longrightarrow>
         (\<forall>n \<in> set (subtree (addMoreToReplies (addMoreToReplies c m1) m2)).
            Comment_FullID_of n = More_ParentID m2 \<longrightarrow> Replies_More (Comment_Replies n) = Some m2))
    \<and> (PostAndComments_Post pc = Some post \<longrightarrow>
         (\<exists>pc1 pc2. addMoreToTree pc m1 = Returned pc1 \<and> addMoreToTree pc1 m2 = Returned pc2
            \<and> addMoreToTree pc m2 = Returned pc2
            \<and> (Post_FullID post = More_ParentID m2 \<longrightarrow> PostAndComments_More pc2 = Some m2)
            \<and> (distinct (map Comment_FullID_of (tree_comments pc)) \<longrightarrow>
                 (\<forall>n \<in> set (tree_comments pc2).
                    Comment_FullID_of n = More_ParentID m2 \<longrightarrow>
                    Replies_More (Comment_Replies n) = Some m2))))"
proof (intro conjI impI)
  show over: "addMoreToReplies (addMoreToReplies c m1) m2 = addMoreToReplies c m2"
    using same by (rule addMoreToReplies_overwrite)
  show "map Comment_FullID_of (subtree (addMoreToReplies c m2)) = map Comment_FullID_of (subtree c)"
    by (rule FullIDs_addMoreToReplies)
  show "\<forall>n \<in> set (subtree (addMoreToReplies (addMoreToReplies c m1) m2)).
            Comment_FullID_of n = More_ParentID m2 \<longrightarrow> Replies_More (Comment_Replies n) = Some m2"
    if "distinct (map Comment_FullID_of (subtree c))"
    using that addMoreToReplies_slot[of c _ m2] by (simp add: over)
next
  assume post: "PostAndComments_Post pc = Some post"
  let ?cs = "PostAndComments_Comments pc"
  let ?pc1 = "\<lparr>PostAndComments_Post = Some post,
      PostAndComments_Comments = map (\<lambda>reply. addMoreToReplies reply m1) ?cs,
      PostAndComments_More =
        (if Post_FullID post = More_ParentID m1 then Some m1 else PostAndComments_More pc)\<rparr>"
  let ?pc2 = "\<lparr>PostAndComments_Post = Some post,
      PostAndComments_Comments = map (\<lambda>reply. addMoreToReplies reply m2) ?cs,
      PostAndComments_More =
        (if Post_FullID post = More_ParentID m2 then Some m2 else PostAndComments_More pc)\<rparr>"
  have 1: "addMoreToTree pc m1 = Returned ?pc1" using post by (rule addMoreToTree_Returned)
  have 2: "addMoreToTree pc m2 = Returned ?pc2" using post by (rule addMoreToTree_Returned)
  have "map (\<lambda>reply. addMoreToReplies (addMoreToReplies reply m1) m2) ?cs
        = map (\<lambda>reply. addMoreToReplies reply m2) ?cs"
    using same by (simp add: addMoreToReplies_overwrite)
  then have 3: "addMoreToTree ?pc1 m2 = Returned ?pc2"
    using same by (simp add: addMoreToTree_def Let_def comp_def)
  have 4: "Post_FullID post = More_ParentID m2 \<longrightarrow> PostAndComments_More ?pc2 = Some m2" by simp
  have 5: "\<forall>n \<in> set (tree_comments ?pc2).
              Comment_FullID_of n = More_ParentID m2 \<longrightarrow> Replies_More (Comment_Replies n) = Some m2"
    if d: "distinct (map Comment_FullID_of (tree_comments pc))"
  proof (intro ballI impI)
    fix n assume n: "n \<in> set (tree_comments ?pc2)" and id: "Comment_FullID_of n = More_ParentID m2"
    from n obtain r where r: "r \<in> set ?cs" "n \<in> set (subtree (addMoreToReplies r m2))"
      by (auto simp: tree_comments_def)
    have "map Comment_FullID_of (tree_comments pc)
          = concat (map (\<lambda>r. map Comment_FullID_of (subtree r)) ?cs)"
      by (simp add: tree_comments_def map_concat comp_def)
    with d r(1) have "distinct (map Comment_FullID_of (subtree r))"
      by (auto intro: distinct_concat_member)
    then show "Replies_More (Comment_Replies n) = Some m2"
      using r(2) id by (rule addMoreToReplies_slot)
  qed
  show "\<exists>pc1 pc2. addMoreToTree pc m1 = Returned pc1 \<and> addMoreToTree pc1 m2 = Returned pc2
            \<and> addMoreToTree pc m2 = Returned pc2
            \<and> (Post_FullID post = More_ParentID m2 \<longrightarrow> PostAndComments_More pc2 = Some m2)
            \<and> (distinct (map Comment_FullID_of (tree_comments pc)) \<longrightarrow>
                 (\<forall>n \<in> set (tree_comments pc2).
                    Comment_FullID_of n = More_ParentID m2 \<longrightarrow>
                    Replies_More (Comment_Replies n) = Some m2))"
    using 1 2 3 4 5 by blast
qed

theorem placeholder_overwrite_witness:
  "More_ParentID (more_with ''more_1'' ''t1_b'' [''t1_c'']) = More_ParentID (more_with ''more_2'' ''t1_b'' [''t1_d''])
   \<and> distinct (map Comment_FullID_of
        (subtree (Comment (Comment_fields (comment_with ''t1_a'' ''t3_root''))
                    (Replies [comment_with ''t1_b'' ''t1_a''] None))))
   \<and> addMoreToReplies
       (addMoreToReplies
          (Comment (Comment_fields (comment_with ''t1_a'' ''t3_root''))
             (Replies [comment_with ''t1_b'' ''t1_a''] None))
          (more_with ''more_1'' ''t1_b'' [''t1_c'']))
       (more_with ''more_2'' ''t1_b'' [''t1_d''])
     = Comment (Comment_fields (comment_with ''t1_a'' ''t3_root''))
         (Replies [Comment (Comment_fields (comment_with ''t1_b'' ''t1_a''))
                     (Replies [] (Some (more_with ''more_2'' ''t1_b'' [''t1_d''])))] None)
   \<and> addMoreToTree
       \<lparr>PostAndComments_Post = Some (post_with ''t1_b''), PostAndComments_Comments = [],
        PostAndComments_More = None\<rparr>
       (more_with ''more_1'' ''t1_b'' [''t1_c''])
     = Returned
       \<lparr>PostAndComments_Post = Some (post_with ''t1_b''), PostAndComments_Comments = [],
        PostAndComments_More = Some (more_with ''more_1'' ''t1_b'' [''t1_c''])\<rparr>
   \<and> addMoreToTree
       \<lparr>PostAndComments_Post = Some (post_with ''t1_b''), PostAndComments_Comments = [],
        PostAndComments_More = Some (more_with ''more_1'' ''t1_b'' [''t1_c''])\<rparr>
       (more_with ''more_2'' ''t1_b'' [''t1_d''])
     = Returned
       \<lparr>PostAndComments_Post = Some (post_with ''t1_b''), PostAndComments_Comments = [],
        PostAndComments_More = Some (more_with ''more_2'' ''t1_b'' [''t1_d''])\<rparr>"
  using placeholder_overwrite
    [of "more_with ''more_1'' ''t1_b'' [''t1_c'']" "more_with ''more_2'' ''t1_b'' [''t1_d'']"
        "Comment (Comment_fields (comment_with ''t1_a'' ''t3_root''))
           (Replies [comment_with ''t1_b'' ''t1_a''] None)"
        "\<lparr>PostAndComments_Post = Some (post_with ''t1_b''), PostAndComments_Comments = [],
          PostAndComments_More = None\<rparr>"
        "post_with ''t1_b''"]
  by (simp add: comment_with_def post_with_def more_with_def zero_Replies_def zero_More_def
      Comment_FullID_of_def zero_Post_def zero_CommentFields_def addMoreToTree_def)

subsection \<open>The collection classifier\<close>

lemma envelope_members:
  "matches_field ''kind'' ''kind''" "\<not> matches_field ''data'' ''kind''"
  "matches_field ''data'' ''data''"
  by (simp_all add: matches_field_def toUpper_def)

lemma store_thing_envelope:
  "store_thing (envelope e) = Inr \<lparr>thing_Kind = fst e, thing_Data = Some (snd e)\<rparr>"
  by (simp add: store_thing_def envelope_def zero_thing_def
      envelope_members)

lemma store_thing_elems_envelopes:
  "store_thing_elems (map envelope es)
   = Inr (map (\<lambda>e. \<lparr>thing_Kind = fst e, thing_Data = Some (snd e)\<rparr>) es)"
  by (induction es) (simp_all add: store_thing_envelope)

lemma kinds_distinct:
  "distinct [kindComment, kindMore, kindAccount, kindPost, kindSubreddit, kindModAction]"
  by (simp add: kindComment_def kindMore_def kindAccount_def kindPost_def kindSubreddit_def
      kindModAction_def)

lemma bucket_Nil: "bucket k dec [] = []"
  by (simp add: bucket_def)

lemma bucket_Cons:
  "bucket k dec (e # es) =
     (if fst e = k then (case dec (snd e) of None \<Rightarrow> bucket k dec es | Some v \<Rightarrow> v # bucket k dec es)
      else bucket k dec es)"
  by (simp add: bucket_def split: option.split)

lemma classify_all_envelopes:
  "classify_all ds t (map (\<lambda>e. \<lparr>thing_Kind = fst e, thing_Data = Some (snd e)\<rparr>) es)
   = \<lparr>things_Comments = things_Comments t @ bucket kindComment (decode_Comment ds) es,
      things_Mores = things_Mores t @ bucket kindMore (decode_More ds) es,
      things_Users = things_Users t @ bucket kindAccount (decode_User ds) es,
      things_Posts = things_Posts t @ bucket kindPost (decode_Post ds) es,
      things_Subreddits = things_Subreddits t @ bucket kindSubreddit (decode_Subreddit ds) es,
      things_ModActions = things_ModActions t @ bucket kindModAction (decode_ModAction ds) es\<rparr>"
proof (induction es arbitrary: t)
  case Nil
  show ?case by (simp add: bucket_Nil)
next
  case (Cons e es)
  have k: "kindComment \<noteq> kindMore" "kindComment \<noteq> kindAccount" "kindComment \<noteq> kindPost"
    "kindComment \<noteq> kindSubreddit" "kindComment \<noteq> kindModAction"
    "kindMore \<noteq> kindAccount" "kindMore \<noteq> kindPost" "kindMore \<noteq> kindSubreddit"
    "kindMore \<noteq> kindModAction" "kindAccount \<noteq> kindPost" "kindAccount \<noteq> kindSubreddit"
    "kindAccount \<noteq> kindModAction" "kindPost \<noteq> kindSubreddit" "kindPost \<noteq> kindModAction"
    "kindSubreddit \<noteq> kindModAction"
    using kinds_distinct by auto
  show ?case
    using k by (simp add: Cons.IH bucket_Cons classify_def unmarshal_payload_def split: option.split)
qed

lemma things_UnmarshalJSON_envelopes:
  "things_UnmarshalJSON ds (Some (JArr (map envelope es))) t = (classified ds es, None)"
  by (simp add: things_UnmarshalJSON_def store_thing_elems_envelopes classify_all_envelopes
      things_init_def classified_def)

text \<open>
  C3. For every sequence of Tagged Envelopes, \<open>things.UnmarshalJSON\<close> returns no error and
  fills each of the six buckets with the records of the envelopes of that bucket's kind
  whose payload decodes, in the order of the input. The six kinds are pairwise different,
  so an envelope adds one record to the bucket of its kind and none to another; an
  envelope of another kind, or one whose payload does not decode, adds nothing anywhere.
\<close>

theorem classifier_buckets:
  "things_UnmarshalJSON ds (Some (JArr (map envelope es))) t = (classified ds es, None)
   \<and> distinct [kindComment, kindMore, kindAccount, kindPost, kindSubreddit, kindModAction]"
  by (simp only: things_UnmarshalJSON_envelopes kinds_distinct simp_thms)

subsection \<open>Listing decode\<close>

lemma example_members:
  "matches_field ''id'' ''id''" "\<not> matches_field ''name'' ''id''" "matches_field ''name'' ''name''"
  "\<not> matches_field ''parent_id'' ''id''" "\<not> matches_field ''parent_id'' ''name''"
  "matches_field ''parent_id'' ''parent_id''"
  "\<not> matches_field ''children'' ''id''" "\<not> matches_field ''children'' ''name''"
  "\<not> matches_field ''children'' ''parent_id''"
  "\<not> matches_field ''data'' ''children''" "\<not> matches_field ''kind'' ''children''"
  "\<not> matches_field ''data'' ''after''" "\<not> matches_field ''data'' ''before''"
  "\<not> matches_field ''kind'' ''after''" "\<not> matches_field ''kind'' ''before''"
  by (simp_all add: matches_field_def toUpper_def)

lemma listing_members:
  "\<not> matches_field ''kind'' ''data''"
  "matches_field ''children'' ''children''"
  "\<not> matches_field ''after'' ''children''" "matches_field ''after'' ''after''"
  "\<not> matches_field ''before'' ''children''" "\<not> matches_field ''before'' ''after''"
  "matches_field ''before'' ''before''"
  by (simp_all add: matches_field_def toUpper_def)

lemma store_members_error:
  "(k, v) \<in> set kvs \<Longrightarrow> (\<And>a. \<exists>e. f (k, v) a = Inl e) \<Longrightarrow> \<exists>e. store_members f kvs a = Inl e"
proof (induction kvs arbitrary: a)
  case Nil
  then show ?case by simp
next
  case (Cons kv kvs)
  show ?case
  proof (cases "f kv a")
    case (Inl e)
    then show ?thesis by simp
  next
    case (Inr a')
    show ?thesis
    proof (cases "kv = (k, v)")
      case True
      with Cons.prems(2)[of a] Inr show ?thesis by simp
    next
      case False
      with Cons.prems(1) have "(k, v) \<in> set kvs" by simp
      from Cons.IH[OF this Cons.prems(2)] Inr show ?thesis by simp
    qed
  qed
qed

lemma store_members_ignored:
  "(\<And>kv a. kv \<in> set kvs \<Longrightarrow> f kv a = Inr a) \<Longrightarrow> store_members f kvs a = Inr a"
  by (induction kvs arbitrary: a) simp_all

lemma store_struct_mismatch:
  "\<not> is_object_or_null j \<Longrightarrow> store_struct f j a = Inl UnmarshalTypeError"
  by (cases j) simp_all

lemma listing_UnmarshalJSON_envelope:
  "listing_UnmarshalJSON ds (Some (listing_envelope (JArr (map envelope es)) a b)) l
   = (\<lparr>listing_things = classified ds es, listing_after = a, listing_before = b\<rparr>, None)"
  by (simp add: listing_UnmarshalJSON_def listing_envelope_def listing_members envelope_members
      things_UnmarshalJSON_envelopes zero_root_Data_def)

text \<open>
  C5, as the code has it. The decode returns an error and leaves the listing when the
  bytes are not JSON, when the value is neither an object nor \<open>null\<close>, and when a \<open>data\<close>
  member is present whose value is neither an object nor \<open>null\<close>. A missing \<open>data\<close>
  member (or \<open>data: null\<close>) is no error: the listing decoded is the empty one. With the
  outer shape in place the decode does not fail, whatever the kinds and payloads of the
  children envelopes.
\<close>

theorem listing_decode_errors:
  "listing_UnmarshalJSON ds None l = (l, Some SyntaxError)
   \<and> listing_UnmarshalJSON ds (Some JNull) l = (zero_listing, None)
   \<and> (\<not> is_object_or_null j \<longrightarrow> listing_UnmarshalJSON ds (Some j) l = (l, Some UnmarshalTypeError))
   \<and> ((k, v) \<in> set kvs \<and> matches_field k ''data'' \<and> \<not> is_object_or_null v
        \<longrightarrow> (\<exists>e. listing_UnmarshalJSON ds (Some (JObj kvs)) l = (l, Some e)))
   \<and> ((\<forall>kv \<in> set kvs. \<not> matches_field (fst kv) ''data'' \<or> snd kv = JNull)
        \<longrightarrow> listing_UnmarshalJSON ds (Some (JObj kvs)) l = (zero_listing, None))
   \<and> listing_UnmarshalJSON ds (Some (listing_envelope (JArr (map envelope es)) a b)) l
        = (\<lparr>listing_things = classified ds es, listing_after = a, listing_before = b\<rparr>, None)"
proof (intro conjI impI)
  show "listing_UnmarshalJSON ds None l = (l, Some SyntaxError)"
    by (simp add: listing_UnmarshalJSON_def)
  show "listing_UnmarshalJSON ds (Some JNull) l = (zero_listing, None)"
    by (simp add: listing_UnmarshalJSON_def zero_root_Data_def zero_listing_def)
  show "listing_UnmarshalJSON ds (Some j) l = (l, Some UnmarshalTypeError)"
    if "\<not> is_object_or_null j"
    using that by (simp add: listing_UnmarshalJSON_def store_struct_mismatch)
  show "\<exists>e. listing_UnmarshalJSON ds (Some (JObj kvs)) l = (l, Some e)"
    if h: "(k, v) \<in> set kvs \<and> matches_field k ''data'' \<and> \<not> is_object_or_null v"
  proof -
    have "\<exists>e. root_member ds (k, v) d = Inl e" for d
      using h by (simp add: store_struct_mismatch)
    with h have "\<exists>e. store_members (root_member ds) kvs zero_root_Data = Inl e"
      by (intro store_members_error[of k v]) auto
    then show ?thesis by (auto simp: listing_UnmarshalJSON_def)
  qed
  show "listing_UnmarshalJSON ds (Some (JObj kvs)) l = (zero_listing, None)"
    if h: "\<forall>kv \<in> set kvs. \<not> matches_field (fst kv) ''data'' \<or> snd kv = JNull"
  proof -
    have "root_member ds kv d = Inr d" if "kv \<in> set kvs" for kv d
      using h that by (cases kv) auto
    then have "store_members (root_member ds) kvs zero_root_Data = Inr zero_root_Data"
      by (rule store_members_ignored)
    then show ?thesis
      by (simp add: listing_UnmarshalJSON_def zero_root_Data_def zero_listing_def)
  qed
  show "listing_UnmarshalJSON ds (Some (listing_envelope (JArr (map envelope es)) a b)) l
        = (\<lparr>listing_things = classified ds es, listing_after = a, listing_before = b\<rparr>, None)"
    by (rule listing_UnmarshalJSON_envelope)
qed

theorem listing_decode_errors_witness:
  "listing_UnmarshalJSON example_decoders (Some (JArr [])) zero_listing
     = (zero_listing, Some UnmarshalTypeError)
   \<and> listing_UnmarshalJSON example_decoders (Some (JObj [(''data'', JStr ''x'')])) zero_listing
     = (zero_listing, Some UnmarshalTypeError)
   \<and> listing_UnmarshalJSON example_decoders (Some (JObj [(''data'', JNull)])) zero_listing
     = (zero_listing, None)
   \<and> listing_UnmarshalJSON example_decoders
       (Some (listing_envelope (JArr (map envelope [(''t9'', JNull), (''t1'', JStr ''x'')])) ''a'' ''b''))
       zero_listing
     = (\<lparr>listing_things = zero_things, listing_after = ''a'', listing_before = ''b''\<rparr>, None)"
  using listing_decode_errors
    [where ds = example_decoders and l = zero_listing and j = "JArr []" and k = "''data''"
       and v = "JStr ''x''" and kvs = "[(''data'', JStr ''x'')]"
       and es = "[(''t9'', JNull), (''t1'', JStr ''x'')]" and a = "''a''" and b = "''b''"]
    listing_decode_errors
    [where ds = example_decoders and l = zero_listing and j = "JArr []" and k = "''data''"
       and v = "JStr ''x''" and kvs = "[(''data'', JNull)]"
       and es = "[]" and a = "''a''" and b = "''b''"]
  by (simp add: listing_UnmarshalJSON_def listing_envelope_def envelope_def
      things_UnmarshalJSON_def store_thing_def classify_def unmarshal_payload_def things_init_def
      envelope_members listing_members example_decoders_def accept_def
      zero_listing_def zero_things_def zero_root_Data_def zero_thing_def
      kindComment_def kindMore_def kindAccount_def kindPost_def
      kindSubreddit_def kindModAction_def)

text \<open>A Listing envelope without its \<open>data\<close> object decodes without error.\<close>

theorem listing_without_data_counterexample:
  "listing_UnmarshalJSON example_decoders (Some (JObj [(''kind'', JStr ''Listing'')])) zero_listing
   = (zero_listing, None)"
  by (simp add: listing_UnmarshalJSON_def listing_members zero_root_Data_def zero_listing_def)

subsection \<open>PostAndComments decode\<close>

lemma store_listing_elems_beyond:
  "length l \<le> i \<Longrightarrow> store_listing_elems ds js i l = Inr l"
  by (induction js arbitrary: i) simp_all

lemma unmarshal_listing_array_mismatch:
  "\<not> is_array_or_null j \<Longrightarrow> unmarshal_listing_array ds (Some j) = Inl UnmarshalTypeError"
  by (cases j) simp_all

lemma PostAndComments_UnmarshalJSON_error_frame:
  "PostAndComments_UnmarshalJSON ds data pc = Returned (pc', Some e) \<Longrightarrow> pc' = pc"
  by (auto simp: PostAndComments_UnmarshalJSON_def split: sum.splits list.splits)

text \<open>
  C1, as the code has it. The decode returns an ordinary error when the bytes are not
  JSON, when the value is neither an array nor \<open>null\<close>, and when element 0 or element 1 of
  the array fails the Listing decode; whenever it returns an error the receiver is as it
  was. The length of the array is not checked: a missing second Listing counts as an
  empty one and elements after the second are skipped, so with a submission in the first
  Listing such an array decodes without error.
\<close>

theorem PostAndComments_decode_shape:
  "PostAndComments_UnmarshalJSON ds None pc = Returned (pc, Some SyntaxError)
   \<and> (\<not> is_array_or_null j \<longrightarrow>
        PostAndComments_UnmarshalJSON ds (Some j) pc = Returned (pc, Some UnmarshalTypeError))
   \<and> (listing_UnmarshalJSON ds (Some ja) zero_listing = (la, Some e) \<longrightarrow>
        PostAndComments_UnmarshalJSON ds (Some (JArr (ja # js))) pc = Returned (pc, Some e))
   \<and> (listing_UnmarshalJSON ds (Some ja) zero_listing = (la, None)
        \<and> listing_UnmarshalJSON ds (Some jb) zero_listing = (lb, Some e) \<longrightarrow>
        PostAndComments_UnmarshalJSON ds (Some (JArr (ja # jb # js))) pc = Returned (pc, Some e))
   \<and> (PostAndComments_UnmarshalJSON ds data pc = Returned (pc', Some e) \<longrightarrow> pc' = pc)
   \<and> (listing_UnmarshalJSON ds (Some ja) zero_listing = (la, None)
        \<and> things_Posts (listing_things la) = post # posts \<longrightarrow>
        PostAndComments_UnmarshalJSON ds (Some (JArr [ja])) pc
          = Returned (pc\<lparr>PostAndComments_Post := Some post, PostAndComments_Comments := []\<rparr>, None))
   \<and> (listing_UnmarshalJSON ds (Some ja) zero_listing = (la, None)
        \<and> things_Posts (listing_things la) = post # posts
        \<and> listing_UnmarshalJSON ds (Some jb) zero_listing = (lb, None) \<longrightarrow>
        PostAndComments_UnmarshalJSON ds (Some (JArr (ja # jb # js))) pc
          = Returned (pc\<lparr>PostAndComments_Post := Some post,
               PostAndComments_Comments := things_Comments (listing_things lb),
               PostAndComments_More :=
                 (case things_Mores (listing_things lb) of
                    [] \<Rightarrow> PostAndComments_More pc | mr # _ \<Rightarrow> Some mr)\<rparr>, None))"
proof (intro conjI impI)
  show "PostAndComments_UnmarshalJSON ds None pc = Returned (pc, Some SyntaxError)"
    by (simp add: PostAndComments_UnmarshalJSON_def)
  show "PostAndComments_UnmarshalJSON ds (Some j) pc = Returned (pc, Some UnmarshalTypeError)"
    if "\<not> is_array_or_null j"
    using that by (simp add: PostAndComments_UnmarshalJSON_def unmarshal_listing_array_mismatch)
  show "PostAndComments_UnmarshalJSON ds (Some (JArr (ja # js))) pc = Returned (pc, Some e)"
    if "listing_UnmarshalJSON ds (Some ja) zero_listing = (la, Some e)"
    using that by (simp add: PostAndComments_UnmarshalJSON_def)
  show "PostAndComments_UnmarshalJSON ds (Some (JArr (ja # jb # js))) pc = Returned (pc, Some e)"
    if "listing_UnmarshalJSON ds (Some ja) zero_listing = (la, None)
        \<and> listing_UnmarshalJSON ds (Some jb) zero_listing = (lb, Some e)"
    using that by (simp add: PostAndComments_UnmarshalJSON_def)
  show "pc' = pc" if "PostAndComments_UnmarshalJSON ds data pc = Returned (pc', Some e)"
    using that by (rule PostAndComments_UnmarshalJSON_error_frame)
  show "PostAndComments_UnmarshalJSON ds (Some (JArr [ja])) pc
          = Returned (pc\<lparr>PostAndComments_Post := Some post, PostAndComments_Comments := []\<rparr>, None)"
    if "listing_UnmarshalJSON ds (Some ja) zero_listing = (la, None)
        \<and> things_Posts (listing_things la) = post # posts"
    using that by (simp add: PostAndComments_UnmarshalJSON_def zero_listing_def zero_things_def)
  show "PostAndComments_UnmarshalJSON ds (Some (JArr (ja # jb # js))) pc
          = Returned (pc\<lparr>PostAndComments_Post := Some post,
               PostAndComments_Comments := things_Comments (listing_things lb),
               PostAndComments_More :=
                 (case things_Mores (listing_things lb) of
                    [] \<Rightarrow> PostAndComments_More pc | mr # _ \<Rightarrow> Some mr)\<rparr>, None)"
    if "listing_UnmarshalJSON ds (Some ja) zero_listing = (la, None)
        \<and> things_Posts (listing_things la) = post # posts
        \<and> listing_UnmarshalJSON ds (Some jb) zero_listing = (lb, None)"
    using that by (simp add: PostAndComments_UnmarshalJSON_def store_listing_elems_beyond)
qed

lemma zero_listing_buckets:
  "things_Comments (listing_things zero_listing) = []"
  "things_Mores (listing_things zero_listing) = []"
  "things_Posts (listing_things zero_listing) = []"
  by (simp_all add: zero_listing_def zero_things_def)

lemma example_post_listing_decoded:
  "listing_UnmarshalJSON example_decoders (Some example_post_listing) zero_listing
   = (\<lparr>listing_things = zero_things\<lparr>things_Posts := [example_post]\<rparr>,
        listing_after = [], listing_before = []\<rparr>, None)"
  by (simp add: example_post_listing_def listing_of_children_def envelope_def
    listing_UnmarshalJSON_def things_UnmarshalJSON_def store_thing_def classify_def
    unmarshal_payload_def example_decoders_def accept_def things_init_def
    envelope_members listing_members example_members zero_listing_def zero_things_def
    zero_root_Data_def zero_thing_def zero_Post_def example_post_def
    kindComment_def kindMore_def kindAccount_def kindPost_def kindSubreddit_def kindModAction_def)

lemma example_comments_listing_decoded:
  "listing_UnmarshalJSON example_decoders (Some example_comments_listing) zero_listing
   = (\<lparr>listing_things =
          zero_things\<lparr>things_Comments := [example_comment], things_Mores := [example_more]\<rparr>,
        listing_after = [], listing_before = []\<rparr>, None)"
  by (simp add: example_comments_listing_def listing_of_children_def envelope_def
    listing_UnmarshalJSON_def things_UnmarshalJSON_def store_thing_def classify_def
    unmarshal_payload_def example_decoders_def accept_def things_init_def
    envelope_members listing_members example_members zero_listing_def zero_things_def
    zero_root_Data_def zero_thing_def zero_CommentFields_def zero_More_def zero_Replies_def
    example_comment_def example_more_def more_with_def
    kindComment_def kindMore_def kindAccount_def kindPost_def kindSubreddit_def kindModAction_def)

theorem PostAndComments_decode_shape_witness:
  "PostAndComments_UnmarshalJSON example_decoders (Some (JObj [])) zero_PostAndComments
     = Returned (zero_PostAndComments, Some UnmarshalTypeError)
   \<and> PostAndComments_UnmarshalJSON example_decoders
       (Some (JArr [JNum ''1'', example_comments_listing])) zero_PostAndComments
     = Returned (zero_PostAndComments, Some UnmarshalTypeError)
   \<and> PostAndComments_UnmarshalJSON example_decoders
       (Some (JArr [example_post_listing, JBool True])) zero_PostAndComments
     = Returned (zero_PostAndComments, Some UnmarshalTypeError)
   \<and> PostAndComments_UnmarshalJSON example_decoders
       (Some (JArr [example_post_listing, example_comments_listing, JNull])) zero_PostAndComments
     = Returned (\<lparr>PostAndComments_Post = Some example_post,
                  PostAndComments_Comments = [example_comment],
                  PostAndComments_More = Some example_more\<rparr>, None)"
proof -
  let ?la = "\<lparr>listing_things = zero_things\<lparr>things_Posts := [example_post]\<rparr>,
               listing_after = [], listing_before = []\<rparr>"
  let ?lb = "\<lparr>listing_things =
                 zero_things\<lparr>things_Comments := [example_comment], things_Mores := [example_more]\<rparr>,
               listing_after = [], listing_before = []\<rparr>"
  have number: "listing_UnmarshalJSON example_decoders (Some (JNum ''1'')) zero_listing
      = (zero_listing, Some UnmarshalTypeError)"
    by (simp add: listing_UnmarshalJSON_def)
  have boolean: "listing_UnmarshalJSON example_decoders (Some (JBool True)) zero_listing
      = (zero_listing, Some UnmarshalTypeError)"
    by (simp add: listing_UnmarshalJSON_def)
  have posts: "things_Posts (listing_things ?la) = example_post # []"
    by (simp add: zero_things_def)
  have object: "\<not> is_array_or_null (JObj [])"
    by simp
  have 1: "PostAndComments_UnmarshalJSON example_decoders (Some (JObj [])) zero_PostAndComments
      = Returned (zero_PostAndComments, Some UnmarshalTypeError)"
    using PostAndComments_decode_shape
      [where ds = example_decoders and pc = zero_PostAndComments and j = "JObj []"] object
    by blast
  have 2: "PostAndComments_UnmarshalJSON example_decoders
       (Some (JArr [JNum ''1'', example_comments_listing])) zero_PostAndComments
     = Returned (zero_PostAndComments, Some UnmarshalTypeError)"
    using PostAndComments_decode_shape
      [where ds = example_decoders and pc = zero_PostAndComments and ja = "JNum ''1''"
         and la = zero_listing and e = UnmarshalTypeError and js = "[example_comments_listing]"]
      number
    by blast
  have 3: "PostAndComments_UnmarshalJSON example_decoders
       (Some (JArr [example_post_listing, JBool True])) zero_PostAndComments
     = Returned (zero_PostAndComments, Some UnmarshalTypeError)"
    using PostAndComments_decode_shape
      [where ds = example_decoders and pc = zero_PostAndComments and ja = example_post_listing
         and la = ?la and jb = "JBool True" and lb = zero_listing and e = UnmarshalTypeError
         and js = "[]"]
      example_post_listing_decoded boolean
    by blast
  have 4: "PostAndComments_UnmarshalJSON example_decoders
       (Some (JArr [example_post_listing, example_comments_listing, JNull])) zero_PostAndComments
     = Returned (zero_PostAndComments\<lparr>PostAndComments_Post := Some example_post,
          PostAndComments_Comments := things_Comments (listing_things ?lb),
          PostAndComments_More :=
            (case things_Mores (listing_things ?lb) of
               [] \<Rightarrow> PostAndComments_More zero_PostAndComments | mr # _ \<Rightarrow> Some mr)\<rparr>, None)"
    using PostAndComments_decode_shape
      [where ds = example_decoders and pc = zero_PostAndComments and ja = example_post_listing
         and la = ?la and jb = example_comments_listing and lb = ?lb
         and post = example_post and posts = "[]" and js = "[JNull]"]
      example_post_listing_decoded example_comments_listing_decoded posts
    by blast
  show ?thesis
    using 1 2 3 4 by (simp add: zero_PostAndComments_def zero_things_def)
qed

text \<open>An array of one Listing, which holds a submission, decodes without error.\<close>

theorem PostAndComments_one_listing_counterexample:
  "PostAndComments_UnmarshalJSON example_decoders (Some (JArr [example_post_listing]))
     zero_PostAndComments
   = Returned (\<lparr>PostAndComments_Post = Some example_post, PostAndComments_Comments = [],
                PostAndComments_More = None\<rparr>, None)"
  by (simp add: PostAndComments_UnmarshalJSON_def example_post_listing_decoded
      zero_PostAndComments_def zero_listing_buckets zero_things_def)

text \<open>
  Without a submission in the first Listing (also for \<open>null\<close> and for the empty array)
  the index expression \<open>l[0].Posts[0]\<close> panics.
\<close>

lemma PostAndComments_UnmarshalJSON_without_submission:
  "PostAndComments_UnmarshalJSON ds (Some JNull) pc = Panicked IndexOutOfRange
   \<and> PostAndComments_UnmarshalJSON ds (Some (JArr [])) pc = Panicked IndexOutOfRange
   \<and> PostAndComments_UnmarshalJSON ds
        (Some (JArr [listing_envelope (JArr []) [] [], listing_envelope (JArr []) [] []])) pc
      = Panicked IndexOutOfRange"
  using listing_UnmarshalJSON_envelope[of ds "[]" "[]" "[]" zero_listing]
  by (simp add: PostAndComments_UnmarshalJSON_def zero_listing_def zero_things_def
      classified_def bucket_def)

subsection \<open>Encoding a reply container and decoding it again\<close>

lemma omitempty_string_not_envelope:
  "\<not> matches_field name ''kind'' \<Longrightarrow> \<not> matches_field name ''data'' \<Longrightarrow>
   list_all not_envelope_member (omitempty_string name s)"
  by (simp add: omitempty_string_def not_envelope_member_def)

lemma omitempty_ptr_not_envelope:
  "\<not> matches_field name ''kind'' \<Longrightarrow> \<not> matches_field name ''data'' \<Longrightarrow>
   list_all not_envelope_member (omitempty_ptr name enc p)"
  by (simp add: omitempty_ptr_def not_envelope_member_def split: option.split)

lemma Comment_names:
  "\<not> matches_field ''id'' ''kind''" "\<not> matches_field ''id'' ''data''"
  "\<not> matches_field ''name'' ''kind''" "\<not> matches_field ''name'' ''data''"
  "\<not> matches_field ''created_utc'' ''kind''" "\<not> matches_field ''created_utc'' ''data''"
  "\<not> matches_field ''edited'' ''kind''" "\<not> matches_field ''edited'' ''data''"
  "\<not> matches_field ''parent_id'' ''kind''" "\<not> matches_field ''parent_id'' ''data''"
  "\<not> matches_field ''permalink'' ''kind''" "\<not> matches_field ''permalink'' ''data''"
  "\<not> matches_field ''body'' ''kind''" "\<not> matches_field ''body'' ''data''"
  "\<not> matches_field ''author'' ''kind''" "\<not> matches_field ''author'' ''data''"
  "\<not> matches_field ''author_fullname'' ''kind''" "\<not> matches_field ''author_fullname'' ''data''"
  "\<not> matches_field ''author_flair_text'' ''kind''" "\<not> matches_field ''author_flair_text'' ''data''"
  "\<not> matches_field ''author_flair_template_id'' ''kind''"
  "\<not> matches_field ''author_flair_template_id'' ''data''"
  "\<not> matches_field ''subreddit'' ''kind''" "\<not> matches_field ''subreddit'' ''data''"
  "\<not> matches_field ''subreddit_name_prefixed'' ''kind''"
  "\<not> matches_field ''subreddit_name_prefixed'' ''data''"
  "\<not> matches_field ''subreddit_id'' ''kind''" "\<not> matches_field ''subreddit_id'' ''data''"
  "\<not> matches_field ''likes'' ''kind''" "\<not> matches_field ''likes'' ''data''"
  "\<not> matches_field ''score'' ''kind''" "\<not> matches_field ''score'' ''data''"
  "\<not> matches_field ''controversiality'' ''kind''" "\<not> matches_field ''controversiality'' ''data''"
  "\<not> matches_field ''link_id'' ''kind''" "\<not> matches_field ''link_id'' ''data''"
  "\<not> matches_field ''link_title'' ''kind''" "\<not> matches_field ''link_title'' ''data''"
  "\<not> matches_field ''link_permalink'' ''kind''" "\<not> matches_field ''link_permalink'' ''data''"
  "\<not> matches_field ''link_author'' ''kind''" "\<not> matches_field ''link_author'' ''data''"
  "\<not> matches_field ''num_comments'' ''kind''" "\<not> matches_field ''num_comments'' ''data''"
  "\<not> matches_field ''is_submitter'' ''kind''" "\<not> matches_field ''is_submitter'' ''data''"
  "\<not> matches_field ''score_hidden'' ''kind''" "\<not> matches_field ''score_hidden'' ''data''"
  "\<not> matches_field ''saved'' ''kind''" "\<not> matches_field ''saved'' ''data''"
  "\<not> matches_field ''stickied'' ''kind''" "\<not> matches_field ''stickied'' ''data''"
  "\<not> matches_field ''locked'' ''kind''" "\<not> matches_field ''locked'' ''data''"
  "\<not> matches_field ''can_gild'' ''kind''" "\<not> matches_field ''can_gild'' ''data''"
  "\<not> matches_field ''over_18'' ''kind''" "\<not> matches_field ''over_18'' ''data''"
  "\<not> matches_field ''replies'' ''kind''" "\<not> matches_field ''replies'' ''data''"
  by (simp_all add: matches_field_def toUpper_def)

lemma marshal_CommentFields_not_envelope:
  "list_all not_envelope_member (marshal_CommentFields ts f)"
  unfolding marshal_CommentFields_def
  by (simp add: omitempty_string_not_envelope omitempty_ptr_not_envelope Comment_names)
     (simp add: not_envelope_member_def Comment_names)

lemma thing_member_not_envelope:
  "not_envelope_member kv \<Longrightarrow> thing_member kv t = Inr t"
  by (cases kv) (simp add: not_envelope_member_def)

lemma store_thing_marshal_Comment: "store_thing (marshal_Comment ts c) = Inr zero_thing"
proof (cases c)
  case (Comment f r)
  let ?kvs = "marshal_CommentFields ts f @ [(''replies'', marshal_Replies ts r)]"
  have "list_all not_envelope_member ?kvs"
    using marshal_CommentFields_not_envelope by (simp add: not_envelope_member_def Comment_names)
  then have "\<And>kv. kv \<in> set ?kvs \<Longrightarrow> not_envelope_member kv"
    unfolding list_all_iff by blast
  then have "store_members thing_member ?kvs zero_thing = Inr zero_thing"
    by (intro store_members_ignored thing_member_not_envelope)
  with Comment show ?thesis by (simp add: store_thing_def)
qed

lemma store_thing_elems_marshal_Comments:
  "store_thing_elems (map (marshal_Comment ts) cs) = Inr (map (\<lambda>c. zero_thing) cs)"
  by (induction cs) (simp_all add: store_thing_marshal_Comment)

lemma classify_zero_thing: "classify ds t zero_thing = t"
  by (simp add: classify_def zero_thing_def kindComment_def kindMore_def kindAccount_def
      kindPost_def kindSubreddit_def kindModAction_def)

lemma classify_all_zero_things: "classify_all ds t (map (\<lambda>c. zero_thing) cs) = t"
  by (induction cs) (simp_all add: classify_zero_thing)

lemma things_UnmarshalJSON_marshal_Comments:
  "things_UnmarshalJSON ds (Some (marshal_Comments ts cs)) t = (zero_things, None)"
  by (simp add: things_UnmarshalJSON_def marshal_Comments_def store_thing_elems_marshal_Comments
      classify_all_zero_things things_init_def zero_things_def)

lemma Replies_UnmarshalJSON_marshal_Comments:
  "Replies_UnmarshalJSON ds (Some (listing_of_children (marshal_Comments ts cs))) r
   = (Replies [] (Replies_More r), None)"
  by (simp add: Replies_UnmarshalJSON_def listing_UnmarshalJSON_def listing_of_children_def
      listing_members envelope_members things_UnmarshalJSON_marshal_Comments zero_root_Data_def
      zero_listing_def zero_things_def)

text \<open>
  C4, as the code has it. A reply container with N > 0 comments encodes as the JSON array
  of its N comments, in order, each a bare comment object; the placeholder has no part in
  the text. A bare comment object has no member for \<open>kind\<close> or \<open>data\<close>, so decoding that
  array as the children of a Listing returns no error and classifies nothing: every
  bucket is empty, and the reply container decoded from such a Listing has no comment and
  no placeholder.
\<close>

theorem Replies_encode_then_decode:
  "Replies_Comments r \<noteq> [] \<longrightarrow>
     Replies_MarshalJSON ts (Some r) = (JArr (map (marshal_Comment ts) (Replies_Comments r)), None)
     \<and> Replies_MarshalJSON ts (Some (Replies (Replies_Comments r) None)) = Replies_MarshalJSON ts (Some r)
     \<and> things_UnmarshalJSON ds (Some (fst (Replies_MarshalJSON ts (Some r)))) t = (zero_things, None)
     \<and> Replies_UnmarshalJSON ds
         (Some (listing_of_children (fst (Replies_MarshalJSON ts (Some r))))) zero_Replies
       = (zero_Replies, None)"
  by (simp add: Replies_MarshalJSON_def things_UnmarshalJSON_marshal_Comments
      Replies_UnmarshalJSON_marshal_Comments zero_Replies_def)
     (simp add: marshal_Comments_def)

theorem Replies_encode_then_decode_witness:
  "Replies_Comments (Replies [comment_with ''t1_a'' ''t3_root''] (Some example_more)) \<noteq> []
   \<and> Replies_MarshalJSON example_timestamp
       (Some (Replies [comment_with ''t1_a'' ''t3_root''] (Some example_more)))
     = (JArr [JObj [(''name'', JStr ''t1_a''), (''parent_id'', JStr ''t3_root''),
                    (''likes'', JNull), (''score'', JNum ''0''),
                    (''controversiality'', JNum ''0''), (''is_submitter'', JBool False),
                    (''score_hidden'', JBool False), (''saved'', JBool False),
                    (''stickied'', JBool False), (''locked'', JBool False),
                    (''can_gild'', JBool False), (''over_18'', JBool False),
                    (''replies'', JNull)]], None)
   \<and> things_UnmarshalJSON example_decoders
       (Some (fst (Replies_MarshalJSON example_timestamp
          (Some (Replies [comment_with ''t1_a'' ''t3_root''] (Some example_more))))))
       zero_things
     = (zero_things, None)"
proof -
  let ?r = "Replies [comment_with ''t1_a'' ''t3_root''] (Some example_more)"
  have some: "Replies_Comments ?r \<noteq> []"
    by simp
  have encoded: "Replies_MarshalJSON example_timestamp (Some ?r)
     = (JArr [JObj [(''name'', JStr ''t1_a''), (''parent_id'', JStr ''t3_root''),
                    (''likes'', JNull), (''score'', JNum ''0''),
                    (''controversiality'', JNum ''0''), (''is_submitter'', JBool False),
                    (''score_hidden'', JBool False), (''saved'', JBool False),
                    (''stickied'', JBool False), (''locked'', JBool False),
                    (''can_gild'', JBool False), (''over_18'', JBool False),
                    (''replies'', JNull)]], None)"
    by (simp add: Replies_MarshalJSON_def marshal_Comments_def comment_with_def
        zero_CommentFields_def zero_Replies_def marshal_CommentFields_def omitempty_string_def
        omitempty_ptr_def marshal_bool_ptr_def marshal_int_def FormatInt_def digit_char_def)
  have again: "things_UnmarshalJSON example_decoders
       (Some (fst (Replies_MarshalJSON example_timestamp (Some ?r)))) zero_things
     = (zero_things, None)"
    using Replies_encode_then_decode
      [where r = ?r and ts = example_timestamp and ds = example_decoders and t = zero_things]
      some
    by blast
  show ?thesis
    using some encoded again by blast
qed

text \<open>
  One comment is encoded and the text decoded as the children of a Listing: the
  container decoded holds no comment.
\<close>

theorem Replies_round_trip_counterexample:
  "Replies_Comments (fst (Replies_UnmarshalJSON example_decoders
       (Some (listing_of_children (fst (Replies_MarshalJSON example_timestamp
          (Some (Replies [comment_with ''t1_a'' ''t3_root''] None))))))
       zero_Replies)) = []
   \<and> Replies_Comments (fst (Replies_UnmarshalJSON example_decoders
       (Some (listing_of_children (fst (Replies_MarshalJSON example_timestamp
          (Some (Replies [comment_with ''t1_a'' ''t3_root''] None))))))
       zero_Replies)) \<noteq> [comment_with ''t1_a'' ''t3_root'']"
  by (simp add: Replies_MarshalJSON_def Replies_UnmarshalJSON_marshal_Comments)

end
